theory Spec2Isabelle
  imports Main
begin

section \<open>JavaScript strings\<close>

text \<open>
  A JavaScript string is modelled as a \<^typ>\<open>string\<close>: one \<^typ>\<open>char\<close> per code unit, for
  the code units below 256. \<open>String.prototype.trim\<close> removes white space and line
  terminators from both ends; below 256 these are TAB, LF, VT, FF, CR, SPACE and the
  no-break space U+00A0.
\<close>

definition is_js_space :: "char \<Rightarrow> bool" where
  "is_js_space c = (c \<in> set [CHR 0x09, CHR 0x0A, CHR 0x0B, CHR 0x0C, CHR 0x0D, CHR 0x20, CHR 0xA0])"

definition js_trim :: "string \<Rightarrow> string" where
  "js_trim s = rev (dropWhile is_js_space (rev (dropWhile is_js_space s)))"

text \<open>\<open>s.replace(/^\/+/, "")\<close>: the run of slashes at the start of the string is removed.\<close>

definition strip_leading_slashes :: "string \<Rightarrow> string" where
  "strip_leading_slashes s = dropWhile (\<lambda>c. c = CHR ''/'') s"

text \<open>\<open>s.replace(/\/+$/, "")\<close>: the run of slashes at the end of the string is removed.\<close>

definition strip_trailing_slashes :: "string \<Rightarrow> string" where
  "strip_trailing_slashes s = rev (dropWhile (\<lambda>c. c = CHR ''/'') (rev s))"

text \<open>\<open>s.endsWith("/")\<close>.\<close>

definition ends_with_slash :: "string \<Rightarrow> bool" where
  "ends_with_slash s = (s \<noteq> [] \<and> last s = CHR ''/'')"

text \<open>
  Truthiness of a value of type \<open>string | undefined\<close>: \<open>undefined\<close> (\<open>None\<close>) and the
  empty string are falsy, every other string is truthy.
\<close>

definition truthy :: "string option \<Rightarrow> bool" where
  "truthy v = (case v of None \<Rightarrow> False | Some s \<Rightarrow> s \<noteq> [])"

text \<open>
  A number that is a natural below \<open>10^21\<close> is printed by a template literal in plain
  decimal; ports are such numbers.
\<close>

definition digit_char :: "nat \<Rightarrow> char" where
  "digit_char d = ''0123456789'' ! d"

function number_to_string :: "nat \<Rightarrow> string" where
  "number_to_string n =
     (if n < 10 then [digit_char n]
      else number_to_string (n div 10) @ [digit_char (n mod 10)])"
  by pat_completeness auto
termination
  by (relation "measure id") auto

declare number_to_string.simps [simp del]

section \<open>The plugin configuration\<close>

text \<open>
  \<open>interface PluginConfig\<close>, as the caller writes it: every field may be missing at run
  time (\<open>input\<close> too: \<open>resolvePluginConfig\<close> checks it). \<open>input\<close> is \<open>string | string[]\<close>,
  \<open>detectTls\<close> is \<open>string | boolean | null\<close>. The second argument of \<open>transformOnServe\<close>
  is the closure variable \<open>viteDevServerUrl\<close>, which is \<open>undefined\<close> (\<open>None\<close>) until the
  listening handler assigns it.
\<close>

datatype entry = Path string | Paths "string list"

datatype detect_tls = TlsNull | TlsString string | TlsBool bool

type_synonym transform_hook = "string \<Rightarrow> string option \<Rightarrow> string"

record plugin_options =
  opt_name :: "string option"
  opt_input :: "entry option"
  opt_publicDirectory :: "string option"
  opt_buildDirectory :: "string option"
  opt_hotFile :: "string option"
  opt_detectTls :: "detect_tls option"
  opt_transformOnServe :: "transform_hook option"

text \<open>\<open>Required<PluginConfig>\<close>: what \<open>resolvePluginConfig\<close> returns.\<close>

record plugin_config =
  name :: string
  input :: entry
  publicDirectory :: string
  buildDirectory :: string
  hotFile :: string
  detectTls :: detect_tls
  transformOnServe :: transform_hook

text \<open>The argument of \<open>backend(config)\<close>: \<open>string | string[] | PluginConfig\<close>, or nothing.\<close>

datatype config_arg =
    ArgUndefined
  | ArgString string
  | ArgArray "string list"
  | ArgObject plugin_options

text \<open>
  Every \<open>throw\<close> of the source is a value of \<open>error\<close>. The source throws plain \<open>Error\<close>
  objects; the constructors name them by their message. \<open>TypeError\<close> is the engine's own
  error for a property read on \<open>null\<close> or \<open>undefined\<close>, \<open>ENOENT\<close> the file system's error
  for a path that does not exist.
\<close>

datatype error =
    MissingConfiguration
  | MissingInput
  | EmptyPublicDirectory
  | EmptyBuildDirectory
  | CertificateFilesNotFound "string option" "string option"
  | HostNotDetermined "string option"
  | TypeError
  | ENOENT string

text \<open>The object \<open>{ input: config }\<close> built from a path or a list of paths.\<close>

definition options_of_input :: "entry \<Rightarrow> plugin_options" where
  "options_of_input i =
     \<lparr>opt_name = None, opt_input = Some i, opt_publicDirectory = None,
      opt_buildDirectory = None, opt_hotFile = None, opt_detectTls = None,
      opt_transformOnServe = None\<rparr>"

text \<open>The default of \<open>transformOnServe\<close>: \<open>(code) => code\<close>.\<close>

definition identity_hook :: transform_hook where
  "identity_hook code url = code"

text \<open>The nullish coalescing operator \<open>v ?? d\<close> on a value that may be \<open>undefined\<close>.\<close>

definition coalesce :: "'a option \<Rightarrow> 'a \<Rightarrow> 'a" where
  "coalesce v d = (case v of None \<Rightarrow> d | Some x \<Rightarrow> x)"

text \<open>
  \<open>resolvePluginConfig\<close>. \<open>path.join\<close> is Node's library function and depends on the
  platform's separator, so it is the parameter \<open>join\<close>. The source also writes the trimmed
  directories back into the caller's object; only the returned configuration is modelled.
  \<open>resolve_plugin_options\<close> is the body of the function from the check of \<open>config.input\<close> on,
  where \<open>config\<close> is an object.
\<close>

definition resolve_plugin_options ::
  "(string \<Rightarrow> string \<Rightarrow> string) \<Rightarrow> plugin_options \<Rightarrow> error + plugin_config" where
  "resolve_plugin_options join config =
     (case opt_input config of
        None \<Rightarrow> Inl MissingInput
      | Some inp \<Rightarrow>
        (let pd = map_option (\<lambda>s. strip_leading_slashes (js_trim s))
                    (opt_publicDirectory config)
         in if pd = Some [] then Inl EmptyPublicDirectory
            else
              (let bd = map_option
                          (\<lambda>s. strip_trailing_slashes (strip_leading_slashes (js_trim s)))
                          (opt_buildDirectory config)
               in if bd = Some [] then Inl EmptyBuildDirectory
                  else Inr
                    \<lparr>name = coalesce (opt_name config) ''backend'',
                     input = inp,
                     publicDirectory = coalesce pd ''public'',
                     buildDirectory = coalesce bd ''build'',
                     hotFile = coalesce (opt_hotFile config) (join (coalesce pd ''public'') ''hot''),
                     detectTls = coalesce (opt_detectTls config) TlsNull,
                     transformOnServe = coalesce (opt_transformOnServe config) identity_hook\<rparr>)))"

definition resolvePluginConfig ::
  "(string \<Rightarrow> string \<Rightarrow> string) \<Rightarrow> config_arg \<Rightarrow> error + plugin_config" where
  "resolvePluginConfig join arg =
     (case arg of
        ArgUndefined \<Rightarrow> Inl MissingConfiguration
      | ArgString s \<Rightarrow> resolve_plugin_options join (options_of_input (Path s))
      | ArgArray ps \<Rightarrow> resolve_plugin_options join (options_of_input (Paths ps))
      | ArgObject c \<Rightarrow> resolve_plugin_options join c)"

text \<open>
  A resolved configuration handed to \<open>resolvePluginConfig\<close> again: an object with every
  field set.
\<close>

definition options_of_config :: "plugin_config \<Rightarrow> plugin_options" where
  "options_of_config c =
     \<lparr>opt_name = Some (name c), opt_input = Some (input c),
      opt_publicDirectory = Some (publicDirectory c),
      opt_buildDirectory = Some (buildDirectory c), opt_hotFile = Some (hotFile c),
      opt_detectTls = Some (detectTls c),
      opt_transformOnServe = Some (transformOnServe c)\<rparr>"

text \<open>
  A stand-in for \<open>path.join\<close> where the model is evaluated on concrete inputs: two segments
  joined by the POSIX separator.
\<close>

definition join_segments :: "string \<Rightarrow> string \<Rightarrow> string" where
  "join_segments a b = a @ ''/'' @ b"

text \<open>\<open>resolveBase\<close>, \<open>resolveInput\<close> and \<open>resolveOutDir\<close>.\<close>

definition resolveBase :: "plugin_config \<Rightarrow> string \<Rightarrow> string" where
  "resolveBase config assetUrl =
     assetUrl @ (if \<not> ends_with_slash assetUrl then ''/'' else '''') @ buildDirectory config @ ''/''"

definition resolveInput :: "plugin_config \<Rightarrow> entry" where
  "resolveInput config = input config"

definition resolveOutDir :: "(string \<Rightarrow> string \<Rightarrow> string) \<Rightarrow> plugin_config \<Rightarrow> string" where
  "resolveOutDir join config = join (publicDirectory config) (buildDirectory config)"

section \<open>The environment and the file system\<close>

text \<open>
  The result of \<open>loadEnv\<close> is a map from variable names to values. The file system is a
  map from paths to file contents: \<open>existsSync\<close> is membership, \<open>readFileSync\<close> the
  contents, \<open>writeFileSync\<close> an update and \<open>rmSync\<close> a removal. Only regular files are
  modelled: reading or removing a file that exists succeeds, and reading or removing one
  that does not exist throws. The empty path names no file. \<open>fs.existsSync(undefined)\<close> is
  \<open>false\<close>. A function that throws leaves the file system as it was.

  Whether \<open>fs.writeFileSync\<close> succeeds depends on what the map does not hold: the
  directory of the path must exist and the path must be open to writing. The set
  \<open>writable\<close> holds the paths at which a write succeeds; a write at any other path, and at
  the empty path, throws (\<open>ENOENT\<close> is the error for a missing directory).
\<close>

type_synonym env = "string \<rightharpoonup> string"

type_synonym filesystem = "string \<rightharpoonup> string"

definition file_at :: "filesystem \<Rightarrow> string \<Rightarrow> string option" where
  "file_at fs p = (if p = [] then None else fs p)"

definition existsSync :: "filesystem \<Rightarrow> string option \<Rightarrow> bool" where
  "existsSync fs p = (case p of None \<Rightarrow> False | Some f \<Rightarrow> file_at fs f \<noteq> None)"

definition can_write :: "string set \<Rightarrow> string \<Rightarrow> bool" where
  "can_write writable p = (p \<noteq> [] \<and> p \<in> writable)"

definition writeFileSync ::
  "string set \<Rightarrow> filesystem \<Rightarrow> string \<Rightarrow> string \<Rightarrow> error + filesystem" where
  "writeFileSync writable fs p d =
     (if can_write writable p then Inr (fs(p \<mapsto> d)) else Inl (ENOENT p))"

definition rmSync :: "filesystem \<Rightarrow> string \<Rightarrow> error + filesystem" where
  "rmSync fs p = (if file_at fs p = None then Inl (ENOENT p) else Inr (fs(p := None)))"

definition readFileSync :: "filesystem \<Rightarrow> string \<Rightarrow> error + string" where
  "readFileSync fs p = (case file_at fs p of None \<Rightarrow> Inl (ENOENT p) | Some d \<Rightarrow> Inr d)"

section \<open>The server configuration from the environment\<close>

text \<open>
  A JavaScript object whose properties are spread is a map from property names to values;
  a property that is present with the value \<open>undefined\<close> is not the same as an absent one.
\<close>

datatype js_value = JUndefined | JBoolean bool | JNumber int | JString string

type_synonym js_object = "string \<rightharpoonup> js_value"

record https_options =
  key :: string
  cert :: string

text \<open>
  The object \<open>resolveEnvironmentServerConfig\<close> returns: \<open>{hmr: {host}, host, https: {key,
  cert}}\<close>. Its type marks the three fields optional; the function sets all three.
\<close>

record environment_server_config =
  env_hmr :: js_object
  env_host :: string
  env_https :: https_options

text \<open>
  \<open>resolveHostFromEnv\<close>: \<open>new URL(env.APP_URL).host\<close>, or \<open>undefined\<close> when the constructor
  throws. The URL parser is the platform's; it is the parameter \<open>url_host\<close>, which is \<open>None\<close>
  where the constructor throws. A missing \<open>APP_URL\<close> is converted to the string
  \<open>"undefined"\<close> by the constructor.
\<close>

definition resolveHostFromEnv :: "(string \<Rightarrow> string option) \<Rightarrow> env \<Rightarrow> string option" where
  "resolveHostFromEnv url_host e = url_host (coalesce (e ''APP_URL'') ''undefined'')"

text \<open>\<open>resolveEnvironmentServerConfig\<close>; \<open>Inr None\<close> is the plain \<open>return\<close>.\<close>

definition resolveEnvironmentServerConfig ::
  "(string \<Rightarrow> string option) \<Rightarrow> filesystem \<Rightarrow> env \<Rightarrow> error + environment_server_config option" where
  "resolveEnvironmentServerConfig url_host fs e =
     (if \<not> truthy (e ''VITE_DEV_SERVER_KEY'') \<and> \<not> truthy (e ''VITE_DEV_SERVER_CERT'')
      then Inr None
      else if \<not> existsSync fs (e ''VITE_DEV_SERVER_KEY'')
              \<or> \<not> existsSync fs (e ''VITE_DEV_SERVER_CERT'')
      then Inl (CertificateFilesNotFound (e ''VITE_DEV_SERVER_KEY'') (e ''VITE_DEV_SERVER_CERT''))
      else
        (let h = resolveHostFromEnv url_host e
         in if \<not> truthy h then Inl (HostNotDetermined (e ''APP_URL''))
            else
              (case (h, e ''VITE_DEV_SERVER_KEY'', e ''VITE_DEV_SERVER_CERT'') of
                 (Some host, Some key_path, Some cert_path) \<Rightarrow>
                   (case readFileSync fs key_path of
                      Inl err \<Rightarrow> Inl err
                    | Inr k \<Rightarrow>
                        (case readFileSync fs cert_path of
                           Inl err \<Rightarrow> Inl err
                         | Inr c \<Rightarrow>
                             Inr (Some \<lparr>env_hmr = [''host'' \<mapsto> JString host], env_host = host,
                                        env_https = \<lparr>key = k, cert = c\<rparr>\<rparr>)))
               | _ \<Rightarrow> Inl TypeError)))"

section \<open>The dev server URL\<close>

text \<open>
  \<open>AddressInfo\<close> of Node's \<open>net\<close> module. \<open>family\<close> is a string in current Node versions
  and was a number in some; \<open>isIpv6\<close> accepts both.
\<close>

datatype family = FamilyName string | FamilyNumber nat

record address_info =
  address :: string
  family :: family
  port :: nat

text \<open>
  The part of Vite's \<open>ResolvedConfig\<close> that the plugin reads: \<open>command\<close>, and of
  \<open>server\<close> the fields \<open>hmr\<close> (\<open>boolean | HmrOptions\<close>, of which \<open>protocol\<close>, \<open>host\<close> and
  \<open>clientPort\<close> are read), \<open>https\<close> (an options object or \<open>undefined\<close>) and \<open>host\<close>
  (\<open>string | boolean\<close>).
\<close>

datatype command = Serve | Build

datatype host_option = HostName string | HostFlag bool

record hmr_options =
  hmr_protocol :: "string option"
  hmr_host :: "string option"
  hmr_clientPort :: "nat option"

datatype resolved_hmr = HmrEnabled bool | HmrOptions hmr_options

record resolved_server =
  server_hmr :: "resolved_hmr option"
  server_https :: "https_options option"
  server_host :: "host_option option"

record resolved_config =
  config_command :: command
  config_server :: resolved_server

definition isIpv6 :: "address_info \<Rightarrow> bool" where
  "isIpv6 a = (family a = FamilyName ''IPv6'' \<or> family a = FamilyNumber 6)"

text \<open>\<open>typeof config.server.hmr === "object" ? config.server.hmr.f : null\<close>.\<close>

definition hmr_field :: "(hmr_options \<Rightarrow> 'a option) \<Rightarrow> resolved_config \<Rightarrow> 'a option" where
  "hmr_field f config =
     (case server_hmr (config_server config) of
        Some (HmrOptions h) \<Rightarrow> f h
      | _ \<Rightarrow> None)"

definition resolveDevServerUrl :: "address_info \<Rightarrow> resolved_config \<Rightarrow> string" where
  "resolveDevServerUrl a config =
     (let configHmrProtocol = hmr_field hmr_protocol config;
          clientProtocol = (if truthy configHmrProtocol
                            then Some (if configHmrProtocol = Some ''wss'' then ''https'' else ''http'')
                            else None);
          serverProtocol = (if server_https (config_server config) \<noteq> None then ''https'' else ''http'');
          protocol = coalesce clientProtocol serverProtocol;
          configHmrHost = hmr_field hmr_host config;
          configHost = (case server_host (config_server config) of
                          Some (HostName h) \<Rightarrow> Some h
                        | _ \<Rightarrow> None);
          serverAddress = (if isIpv6 a then ''['' @ address a @ '']'' else address a);
          host = coalesce configHmrHost (coalesce configHost serverAddress);
          configHmrClientPort = hmr_field hmr_clientPort config;
          port = coalesce configHmrClientPort (port a)
      in protocol @ ''://'' @ host @ '':'' @ number_to_string port)"

section \<open>The \<open>config\<close> hook\<close>

text \<open>
  The part of Vite's \<open>UserConfig\<close> that the hook reads and returns. Every field is
  optional. \<open>publicDir\<close> is \<open>string | false\<close>, \<open>build.manifest\<close> is \<open>boolean | string\<close>,
  \<open>build.rollupOptions.input\<close> is a path, a list of paths or an object of named paths,
  \<open>server.hmr\<close> is \<open>boolean | HmrOptions\<close> and \<open>resolve.alias\<close> is an array or an object of
  replacements. The hook's argument and its result have this one type.
\<close>

datatype public_dir = PublicDirFalse | PublicDirPath string

datatype manifest_option = ManifestFlag bool | ManifestFile string

datatype input_option =
    InputPath string
  | InputPaths "string list"
  | InputObject "(string \<times> string) list"

datatype hmr_option = HmrFlag bool | HmrObject js_object

datatype alias_option =
    AliasArray "(string \<times> string) list"
  | AliasObject "(string \<times> string) list"

record rollup_options =
  rollup_input :: "input_option option"

record build_options =
  manifest :: "manifest_option option"
  outDir :: "string option"
  rollupOptions :: "rollup_options option"
  assetsInlineLimit :: "nat option"

record server_options =
  origin :: "string option"
  host :: "host_option option"
  hmr :: "hmr_option option"
  https :: "https_options option"

record resolve_config =
  resolve_alias :: "alias_option option"

record user_config =
  base :: "string option"
  publicDir :: "public_dir option"
  build :: "build_options option"
  server :: "server_options option"
  resolve :: "resolve_config option"

text \<open>Optional chaining \<open>obj?.f\<close> on an optional object with an optional field.\<close>

definition chain :: "'a option \<Rightarrow> ('a \<Rightarrow> 'b option) \<Rightarrow> 'b option" where
  "chain obj f = (case obj of None \<Rightarrow> None | Some x \<Rightarrow> f x)"

fun input_of_entry :: "entry \<Rightarrow> input_option" where
  "input_of_entry (Path p) = InputPath p"
| "input_of_entry (Paths ps) = InputPaths ps"

text \<open>
  The \<open>hmr\<close> value of the returned \<open>server\<close> object when the environment gave a server
  configuration: \<open>false\<close> stays \<open>false\<close>; otherwise the environment's \<open>hmr\<close> object is
  spread first and the user's \<open>hmr\<close> object over it, where \<open>true\<close> and \<open>undefined\<close> spread
  nothing.
\<close>

definition merge_hmr :: "js_object \<Rightarrow> hmr_option option \<Rightarrow> hmr_option" where
  "merge_hmr environment_hmr user_hmr =
     (if user_hmr = Some (HmrFlag False) then HmrFlag False
      else HmrObject
             (environment_hmr ++
              (case user_hmr of
                 Some (HmrObject h) \<Rightarrow> h
               | _ \<Rightarrow> Map.empty)))"

text \<open>
  The \<open>server\<close> object of the result: \<open>origin\<close>, and, spread into it, either
  \<open>{host, hmr, https}\<close> or \<open>undefined\<close>, which adds no property.
\<close>

definition merge_server ::
  "server_options option \<Rightarrow> environment_server_config option \<Rightarrow> server_options" where
  "merge_server user_server serverConfig =
     (case serverConfig of
        None \<Rightarrow>
          \<lparr>origin = Some (coalesce (chain user_server origin) ''__backend_vite_placeholder__''),
           host = None, hmr = None, https = None\<rparr>
      | Some sc \<Rightarrow>
          \<lparr>origin = Some (coalesce (chain user_server origin) ''__backend_vite_placeholder__''),
           host = Some (coalesce (chain user_server host) (HostName (env_host sc))),
           hmr = Some (merge_hmr (env_hmr sc) (chain user_server hmr)),
           https = Some (coalesce (chain user_server https) (env_https sc))\<rparr>)"

text \<open>
  The \<open>config\<close> hook. \<open>loadEnv\<close> is Vite's; its result is the parameter \<open>e\<close>. The hook also
  stores its argument in the closure variable \<open>userConfig\<close> (see \<open>plugin_state\<close> below).
\<close>

definition config ::
  "(string \<Rightarrow> string \<Rightarrow> string) \<Rightarrow> (string \<Rightarrow> string option) \<Rightarrow> filesystem \<Rightarrow> env \<Rightarrow>
   plugin_config \<Rightarrow> user_config \<Rightarrow> command \<Rightarrow> error + user_config" where
  "config join url_host fs e pluginConfig uc cmd =
     (let assetUrl = coalesce (e ''ASSET_URL'') []
      in case (if cmd = Serve then resolveEnvironmentServerConfig url_host fs e else Inr None) of
           Inl err \<Rightarrow> Inl err
         | Inr serverConfig \<Rightarrow> Inr
             \<lparr>base = Some (coalesce (base uc)
                             (if cmd = Build then resolveBase pluginConfig assetUrl else [])),
              publicDir = Some (coalesce (publicDir uc) PublicDirFalse),
              build = Some
                \<lparr>manifest = Some (coalesce (chain (build uc) manifest)
                                     (ManifestFile ''manifest.json'')),
                 outDir = Some (coalesce (chain (build uc) outDir)
                                   (resolveOutDir join pluginConfig)),
                 rollupOptions = Some
                   \<lparr>rollup_input = Some
                      (coalesce (chain (chain (build uc) rollupOptions) rollup_input)
                         (input_of_entry (resolveInput pluginConfig)))\<rparr>,
                 assetsInlineLimit = Some (coalesce (chain (build uc) assetsInlineLimit) 0)\<rparr>,
              server = Some (merge_server (server uc) serverConfig),
              resolve = Some
                \<lparr>resolve_alias = Some
                   (case chain (resolve uc) resolve_alias of
                      Some (AliasArray xs) \<Rightarrow> AliasArray xs
                    | Some (AliasObject xs) \<Rightarrow> AliasObject xs
                    | None \<Rightarrow> AliasObject [])\<rparr>\<rparr>)"

section \<open>The plugin's closure and the process\<close>

text \<open>
  The three \<open>let\<close> variables of \<open>resolveBackendPlugin\<close>; each is \<open>undefined\<close> until its
  hook has run.
\<close>

record plugin_state =
  viteDevServerUrl :: "string option"
  resolvedConfig :: "resolved_config option"
  userConfig :: "user_config option"

text \<open>
  \<open>code.replace(/__backend_vite_placeholder__/g, replacement)\<close> with a replacement
  string. The pattern has no special character and no group, so a match is an occurrence
  of the token; the matches are found from left to right and do not overlap. In the
  replacement string \<open>$$\<close> stands for a dollar sign, \<open>$&\<close> for the matched text, a dollar
  sign with a backquote for the text before the match and a dollar sign with a single
  quote for the text after it (\<open>GetSubstitution\<close>); a dollar sign before any other
  character stands for itself.
\<close>

fun getSubstitution :: "string \<Rightarrow> string \<Rightarrow> string \<Rightarrow> string \<Rightarrow> string" where
  "getSubstitution matched before after [] = []"
| "getSubstitution matched before after [c] = [c]"
| "getSubstitution matched before after (c # d # rest) =
     (if c = CHR ''$'' \<and> d = CHR ''$'' then CHR ''$'' # getSubstitution matched before after rest
      else if c = CHR ''$'' \<and> d = CHR ''&'' then matched @ getSubstitution matched before after rest
      else if c = CHR ''$'' \<and> d = CHR 0x60 then before @ getSubstitution matched before after rest
      else if c = CHR ''$'' \<and> d = CHR 0x27 then after @ getSubstitution matched before after rest
      else c # getSubstitution matched before after (d # rest))"

definition starts_with :: "string \<Rightarrow> string \<Rightarrow> bool" where
  "starts_with pat s = (take (length pat) s = pat)"

function replace_global :: "string \<Rightarrow> string \<Rightarrow> string \<Rightarrow> string \<Rightarrow> string" where
  "replace_global pat replacement before s =
     (if s = [] \<or> pat = [] then s
      else if starts_with pat s
      then getSubstitution pat before (drop (length pat) s) replacement
           @ replace_global pat replacement (before @ pat) (drop (length pat) s)
      else hd s # replace_global pat replacement (before @ [hd s]) (tl s))"
  by pat_completeness auto
termination
  by (relation "measure (\<lambda>(pat, replacement, before, s). length s)") auto

declare replace_global.simps [simp del]

definition placeholder :: string where
  "placeholder = ''__backend_vite_placeholder__''"

text \<open>\<open>replace\<close> converts the replacement \<open>undefined\<close> to the string \<open>"undefined"\<close>.\<close>

definition url_to_string :: "string option \<Rightarrow> string" where
  "url_to_string u = coalesce u ''undefined''"

text \<open>
  The \<open>transform\<close> hook; \<open>Inr None\<close> is its return without a value. Reading
  \<open>resolvedConfig.command\<close> before \<open>configResolved\<close> has run is a \<open>TypeError\<close>.
\<close>

definition transform :: "plugin_config \<Rightarrow> plugin_state \<Rightarrow> string \<Rightarrow> error + string option" where
  "transform pluginConfig st code =
     (case resolvedConfig st of
        None \<Rightarrow> Inl TypeError
      | Some rc \<Rightarrow>
          if config_command rc = Serve
          then Inr (Some (transformOnServe pluginConfig
                            (replace_global placeholder (url_to_string (viteDevServerUrl st)) [] code)
                            (viteDevServerUrl st)))
          else Inr None)"

text \<open>
  What \<open>server.httpServer?.address()\<close> can be: an \<open>AddressInfo\<close>, the name of a pipe,
  \<open>null\<close> or \<open>undefined\<close>. \<open>isAddressInfo\<close> is \<open>typeof x === "object"\<close>, which holds of an
  object and of \<open>null\<close>.
\<close>

datatype socket_address =
    AddressInfo address_info
  | PipeName string
  | AddressNull
  | AddressUndefined

fun isAddressInfo :: "socket_address \<Rightarrow> bool" where
  "isAddressInfo (AddressInfo a) = True"
| "isAddressInfo (PipeName s) = False"
| "isAddressInfo AddressNull = True"
| "isAddressInfo AddressUndefined = False"

text \<open>
  The handler of the HTTP server's \<open>listening\<close> event, on the closure's state and the
  file system. The result is the state and the file system the handler leaves, and the
  error it throws, if any. \<open>userConfig.server?.origin\<close> is a \<open>TypeError\<close> when the \<open>config\<close>
  hook has not run. \<open>resolveDevServerUrl\<close> reads \<open>address.family\<close>, a \<open>TypeError\<close> on
  \<open>null\<close>; it is thrown before \<open>viteDevServerUrl\<close> is assigned. The assignment comes before
  the write, which throws where the hot file's path is not in \<open>writable\<close>.
\<close>

definition listening ::
  "string set \<Rightarrow> plugin_config \<Rightarrow> socket_address \<Rightarrow> resolved_config \<Rightarrow>
   plugin_state \<times> filesystem \<Rightarrow> (plugin_state \<times> filesystem) \<times> error option" where
  "listening writable pluginConfig addr serverConfig w =
     (if isAddressInfo addr
      then (case userConfig (fst w) of
              None \<Rightarrow> (w, Some TypeError)
            | Some uc \<Rightarrow>
                (case (if truthy (chain (server uc) origin)
                       then Inr (coalesce (chain (server uc) origin) [])
                       else (case addr of
                               AddressInfo a \<Rightarrow> Inr (resolveDevServerUrl a serverConfig)
                             | _ \<Rightarrow> Inl TypeError)) of
                   Inl err \<Rightarrow> (w, Some err)
                 | Inr url \<Rightarrow>
                     (case writeFileSync writable (snd w) (hotFile pluginConfig) url of
                        Inl err \<Rightarrow> (((fst w)\<lparr>viteDevServerUrl := Some url\<rparr>, snd w), Some err)
                      | Inr fs \<Rightarrow> (((fst w)\<lparr>viteDevServerUrl := Some url\<rparr>, fs), None))))
      else (w, None))"

text \<open>
  The \<open>clean\<close> closure of \<open>configureServer\<close>, on the file system; its argument is the
  \<open>pluginConfig.hotFile\<close> the closure holds.
\<close>

definition clean :: "string \<Rightarrow> filesystem \<Rightarrow> error + filesystem" where
  "clean hot fs = (if existsSync fs (Some hot) then rmSync fs hot else Inr fs)"

text \<open>
  The process: the module's flag \<open>exitHandlersBound\<close>, the listeners attached with
  \<open>process.on\<close> in the order of attachment, the listening handlers attached to the HTTP
  server with \<open>once\<close> in the order of attachment, and the file system. A listener is named
  by what it does: \<open>Clean f\<close> is the \<open>clean\<close> closure that holds the hot file \<open>f\<close>,
  \<open>ExitProcess\<close> is \<open>() => process.exit()\<close>. A listening handler is named by the
  \<open>pluginConfig\<close> of the plugin that attached it.
\<close>

datatype event = Exit | SIGINT | SIGTERM | SIGHUP

datatype listener = Clean string | ExitProcess

record process =
  exitHandlersBound :: bool
  listeners :: "(event \<times> listener) list"
  listening_once :: "plugin_config list"
  files :: filesystem

definition initial_process :: "filesystem \<Rightarrow> process" where
  "initial_process fs =
     \<lparr>exitHandlersBound = False, listeners = [], listening_once = [], files = fs\<rparr>"

text \<open>
  \<open>configureServer\<close>, on the process. \<open>has_httpServer\<close> says whether \<open>server.httpServer\<close> is
  an object (it is \<open>null\<close> in middleware mode). The middleware the hook returns does not
  touch the process and is left out.
\<close>

definition configureServer :: "plugin_config \<Rightarrow> bool \<Rightarrow> process \<Rightarrow> process" where
  "configureServer pluginConfig has_httpServer p =
     (let p1 = (if has_httpServer
                then p\<lparr>listening_once := listening_once p @ [pluginConfig]\<rparr>
                else p)
      in if \<not> exitHandlersBound p1
         then p1\<lparr>listeners := listeners p1 @
                     [(Exit, Clean (hotFile pluginConfig)),
                      (SIGINT, ExitProcess), (SIGTERM, ExitProcess), (SIGHUP, ExitProcess)],
                  exitHandlersBound := True\<rparr>
         else p1)"

text \<open>A sequence of \<open>configureServer\<close> calls in one process, first call first.\<close>

fun configureServer_all :: "(plugin_config \<times> bool) list \<Rightarrow> process \<Rightarrow> process" where
  "configureServer_all [] p = p"
| "configureServer_all (c # cs) p = configureServer_all cs (configureServer (fst c) (snd c) p)"

text \<open>
  The HTTP server emits \<open>listening\<close>: the handlers attached with \<open>once\<close> are detached and
  run in the order of attachment, and a handler that throws ends the emission. Each
  handler works on the closure variables of its own plugin: \<open>closures i\<close> are those of the
  plugin that attached the handler at position \<open>i\<close>. The address and the resolved
  configuration are those of the server.
\<close>

fun run_once_listeners ::
  "string set \<Rightarrow> socket_address \<Rightarrow> resolved_config \<Rightarrow> nat \<Rightarrow> plugin_config list \<Rightarrow>
   (nat \<Rightarrow> plugin_state) \<times> filesystem \<Rightarrow>
   ((nat \<Rightarrow> plugin_state) \<times> filesystem) \<times> error option" where
  "run_once_listeners writable addr cfg i [] w = (w, None)"
| "run_once_listeners writable addr cfg i (pc # pcs) w =
     (case listening writable pc addr cfg (fst w i, snd w) of
        (w', Some err) \<Rightarrow> (((fst w)(i := fst w'), snd w'), Some err)
      | (w', None) \<Rightarrow>
          run_once_listeners writable addr cfg (Suc i) pcs ((fst w)(i := fst w'), snd w'))"

definition emit_listening ::
  "string set \<Rightarrow> socket_address \<Rightarrow> resolved_config \<Rightarrow> (nat \<Rightarrow> plugin_state) \<Rightarrow> process \<Rightarrow>
   ((nat \<Rightarrow> plugin_state) \<times> process) \<times> error option" where
  "emit_listening writable addr cfg closures p =
     (case run_once_listeners writable addr cfg 0 (listening_once p) (closures, files p) of
        (w, err) \<Rightarrow> ((fst w, p\<lparr>listening_once := [], files := snd w\<rparr>), err))"

text \<open>
  \<open>process.exit()\<close> emits \<open>exit\<close>: the listeners of \<open>exit\<close> run in order. A signal whose
  listener is \<open>() => process.exit()\<close> does the same.
\<close>

fun run_listener :: "listener \<Rightarrow> filesystem \<Rightarrow> error + filesystem" where
  "run_listener (Clean f) fs = clean f fs"
| "run_listener ExitProcess fs = Inr fs"

fun emit_exit :: "(event \<times> listener) list \<Rightarrow> filesystem \<Rightarrow> error + filesystem" where
  "emit_exit [] fs = Inr fs"
| "emit_exit (l # ls) fs =
     (if fst l = Exit
      then (case run_listener (snd l) fs of
              Inl err \<Rightarrow> Inl err
            | Inr fs' \<Rightarrow> emit_exit ls fs')
      else emit_exit ls fs)"

definition process_exit :: "process \<Rightarrow> error + process" where
  "process_exit p =
     (case emit_exit (listeners p) (files p) of
        Inl err \<Rightarrow> Inl err
      | Inr fs \<Rightarrow> Inr (p\<lparr>files := fs\<rparr>))"

definition signal :: "event \<Rightarrow> process \<Rightarrow> error + process" where
  "signal ev p = (if (ev, ExitProcess) \<in> set (listeners p) then process_exit p else Inr p)"

section \<open>Replacement as the specification words it\<close>

text \<open>
  The specification's "replaces every occurrence of the placeholder with the URL": the
  occurrences are taken from left to right, and the URL is put in as it is.
\<close>

function replace_every :: "string \<Rightarrow> string \<Rightarrow> string \<Rightarrow> string" where
  "replace_every pat url s =
     (if s = [] \<or> pat = [] then s
      else if starts_with pat s then url @ replace_every pat url (drop (length pat) s)
      else hd s # replace_every pat url (tl s))"
  by pat_completeness auto
termination
  by (relation "measure (\<lambda>(pat, url, s). length s)") auto

declare replace_every.simps [simp del]

section \<open>The specification's error classes\<close>

text \<open>
  The specification sorts the errors into classes; the code throws plain \<open>Error\<close> objects.
  Its \<open>ConfigurationError\<close> is: input missing, \<open>publicDirectory\<close> or \<open>buildDirectory\<close>
  empty after trimming, configuration missing entirely.
\<close>

definition configuration_error :: "error \<Rightarrow> bool" where
  "configuration_error err =
     (err = MissingConfiguration \<or> err = MissingInput \<or> err = EmptyPublicDirectory
      \<or> err = EmptyBuildDirectory)"

section \<open>Inputs on which the model is evaluated\<close>

text \<open>
  The plugin configuration of \<open>backend("resources/js/app.js")\<close>; an environment that names
  a key and a certificate file and an application URL, with the two files and with a URL
  parser that knows this URL; the user configuration \<open>{}\<close>; the closure variables of a
  plugin after its \<open>config\<close> hook has run; closure variables that are the same for every
  plugin; the socket address \<open>127.0.0.1:5173\<close>; and a resolved Vite configuration in serve
  mode without HMR options, TLS or host.
\<close>

definition app_plugin_config :: plugin_config where
  "app_plugin_config =
     \<lparr>name = ''backend'', input = Path ''resources/js/app.js'',
      publicDirectory = ''public'', buildDirectory = ''build'',
      hotFile = ''public/hot'', detectTls = TlsNull, transformOnServe = identity_hook\<rparr>"

definition tls_env :: env where
  "tls_env =
     [''VITE_DEV_SERVER_KEY'' \<mapsto> ''/certs/app.key'',
      ''VITE_DEV_SERVER_CERT'' \<mapsto> ''/certs/app.crt'',
      ''APP_URL'' \<mapsto> ''https://app.test'']"

definition tls_files :: filesystem where
  "tls_files = [''/certs/app.key'' \<mapsto> ''KEY'', ''/certs/app.crt'' \<mapsto> ''CERT'']"

definition app_url_host :: "string \<Rightarrow> string option" where
  "app_url_host = [''https://app.test'' \<mapsto> ''app.test'']"

definition empty_user_config :: user_config where
  "empty_user_config =
     \<lparr>base = None, publicDir = None, build = None, server = None, resolve = None\<rparr>"

definition closure_after_config :: "user_config \<Rightarrow> plugin_state" where
  "closure_after_config uc =
     \<lparr>viteDevServerUrl = None, resolvedConfig = None, userConfig = Some uc\<rparr>"

definition same_closure :: "plugin_state \<Rightarrow> nat \<Rightarrow> plugin_state" where
  "same_closure st i = st"

definition local_address :: address_info where
  "local_address = \<lparr>address = ''127.0.0.1'', family = FamilyName ''IPv4'', port = 5173\<rparr>"

definition plain_serve_config :: resolved_config where
  "plain_serve_config =
     \<lparr>config_command = Serve,
      config_server = \<lparr>server_hmr = None, server_https = None, server_host = None\<rparr>\<rparr>"

section \<open>Evaluation lemmas\<close>

lemma number_to_string_5173: "number_to_string 5173 = ''5173''"
  by (simp add: number_to_string.simps [of 5173] number_to_string.simps [of 517]
      number_to_string.simps [of 51] number_to_string.simps [of 5] digit_char_def)

section \<open>The dev server URL (C1)\<close>

text \<open>
  The specification's examples: an IPv6 socket address is put in brackets, and an HMR host
  with an HMR client port replaces the socket's address and port.
\<close>

lemma ipv6_url:
  "resolveDevServerUrl \<lparr>address = ''::1'', family = FamilyName ''IPv6'', port = 5173\<rparr>
     \<lparr>config_command = Serve,
      config_server = \<lparr>server_hmr = None, server_https = None, server_host = None\<rparr>\<rparr>
   = ''http://[::1]:5173''"
  by (simp add: resolveDevServerUrl_def coalesce_def truthy_def Let_def hmr_field_def
      isIpv6_def number_to_string_5173)

lemma hmr_override_url:
  "resolveDevServerUrl \<lparr>address = ''127.0.0.1'', family = FamilyName ''IPv4'', port = 5173\<rparr>
     \<lparr>config_command = Serve,
      config_server =
        \<lparr>server_hmr = Some (HmrOptions \<lparr>hmr_protocol = None, hmr_host = Some ''example.test'',
                                         hmr_clientPort = Some 8080\<rparr>),
         server_https = None, server_host = None\<rparr>\<rparr>
   = ''http://example.test:8080''"
  by (simp add: resolveDevServerUrl_def coalesce_def truthy_def Let_def hmr_field_def
      number_to_string.simps [of 8080] number_to_string.simps [of 808]
      number_to_string.simps [of 80] number_to_string.simps [of 8] digit_char_def)

text \<open>
  C1, as the code has it. The protocol is \<open>https\<close> when the HMR options give the protocol
  \<open>wss\<close>; else \<open>http\<close> when they give a protocol that is not the empty string; else (no HMR
  options object, no protocol, or the empty string as protocol) \<open>https\<close> exactly when the
  server's \<open>https\<close> options are set, and \<open>http\<close> otherwise. The host is the HMR host when
  the HMR options give one; else the server's \<open>host\<close> when it is a string; else the socket's
  address, in brackets when \<open>isIpv6\<close> holds of the socket address. The port is the HMR
  \<open>clientPort\<close> when the HMR options give one, else the socket's port. The result is
  \<open>protocol://host:port\<close>.
\<close>

theorem resolveDevServerUrl_precedence:
  "resolveDevServerUrl a cfg =
     (if hmr_field hmr_protocol cfg = Some ''wss'' then ''https''
      else if truthy (hmr_field hmr_protocol cfg) then ''http''
      else if server_https (config_server cfg) \<noteq> None then ''https''
      else ''http'')
     @ ''://'' @
     (case hmr_field hmr_host cfg of
        Some h \<Rightarrow> h
      | None \<Rightarrow>
          (case server_host (config_server cfg) of
             Some (HostName h) \<Rightarrow> h
           | _ \<Rightarrow> if isIpv6 a then ''['' @ address a @ '']'' else address a))
     @ '':'' @
     number_to_string (case hmr_field hmr_clientPort cfg of Some p \<Rightarrow> p | None \<Rightarrow> port a)"
  by (simp add: resolveDevServerUrl_def coalesce_def truthy_def Let_def
      split: option.splits host_option.splits)

text \<open>
  C1 as the specification words it fails where the HMR options give the empty string as
  protocol and the server has \<open>https\<close> options: the HMR configuration specifies a protocol
  that is not \<open>wss\<close>, so the claim's protocol is \<open>http\<close>; the code treats the empty string
  as no protocol and answers \<open>https\<close>.
\<close>

theorem resolveDevServerUrl_empty_protocol:
  "resolveDevServerUrl
     \<lparr>address = ''127.0.0.1'', family = FamilyName ''IPv4'', port = 5173\<rparr>
     \<lparr>config_command = Serve,
      config_server =
        \<lparr>server_hmr = Some (HmrOptions \<lparr>hmr_protocol = Some [], hmr_host = None,
                                         hmr_clientPort = None\<rparr>),
         server_https = Some \<lparr>key = ''key'', cert = ''cert''\<rparr>,
         server_host = None\<rparr>\<rparr>
   = ''https://127.0.0.1:5173''"
  by (simp add: resolveDevServerUrl_def coalesce_def truthy_def Let_def hmr_field_def
      isIpv6_def number_to_string_5173)

section \<open>Normalizing the plugin configuration (C3, C7)\<close>

subsection \<open>What the string operations leave\<close>

lemma strip_leading_slashes_fixed:
  "s \<noteq> [] \<Longrightarrow> hd s \<noteq> CHR ''/'' \<Longrightarrow> strip_leading_slashes s = s"
  by (cases s) (simp_all add: strip_leading_slashes_def)

lemma hd_strip_leading_slashes:
  "strip_leading_slashes s \<noteq> [] \<Longrightarrow> hd (strip_leading_slashes s) \<noteq> CHR ''/''"
  unfolding strip_leading_slashes_def using hd_dropWhile [of "\<lambda>c. c = CHR ''/''" s] by simp

lemma strip_trailing_slashes_idem:
  "strip_trailing_slashes (strip_trailing_slashes s) = strip_trailing_slashes s"
  by (simp add: strip_trailing_slashes_def)

lemma strip_trailing_slashes_prefix:
  "strip_trailing_slashes s @ rev (takeWhile (\<lambda>c. c = CHR ''/'') (rev s)) = s"
proof -
  have "strip_trailing_slashes s @ rev (takeWhile (\<lambda>c. c = CHR ''/'') (rev s))
        = rev (takeWhile (\<lambda>c. c = CHR ''/'') (rev s) @ dropWhile (\<lambda>c. c = CHR ''/'') (rev s))"
    unfolding strip_trailing_slashes_def by (simp only: rev_append)
  also have "\<dots> = s"
    by simp
  finally show ?thesis .
qed

lemma hd_strip_trailing_slashes:
  "strip_trailing_slashes s \<noteq> [] \<Longrightarrow> hd (strip_trailing_slashes s) = hd s"
  using strip_trailing_slashes_prefix [of s] by (metis hd_append2)

lemma normalized_directories:
  assumes "resolve_plugin_options join opts = Inr c"
  shows "publicDirectory c \<noteq> []"
    and "strip_leading_slashes (publicDirectory c) = publicDirectory c"
    and "buildDirectory c \<noteq> []"
    and "strip_leading_slashes (buildDirectory c) = buildDirectory c"
    and "strip_trailing_slashes (buildDirectory c) = buildDirectory c"
proof -
  obtain inp where inp: "opt_input opts = Some inp"
    using assms by (auto simp: resolve_plugin_options_def split: option.splits)
  define pd where "pd = map_option (\<lambda>s. strip_leading_slashes (js_trim s)) (opt_publicDirectory opts)"
  define bd where "bd = map_option (\<lambda>s. strip_trailing_slashes (strip_leading_slashes (js_trim s)))
     (opt_buildDirectory opts)"
  have pd: "pd \<noteq> Some []" and bd: "bd \<noteq> Some []"
    and p: "publicDirectory c = coalesce pd ''public''"
    and b: "buildDirectory c = coalesce bd ''build''"
    using assms inp unfolding pd_def bd_def
    by (auto simp: resolve_plugin_options_def Let_def split: if_splits)
  show "publicDirectory c \<noteq> []"
    using pd p by (cases pd) (simp_all add: coalesce_def)
  show "strip_leading_slashes (publicDirectory c) = publicDirectory c"
  proof (cases "opt_publicDirectory opts")
    case None
    then show ?thesis using p by (simp add: pd_def coalesce_def strip_leading_slashes_def)
  next
    case (Some s)
    then have eq: "publicDirectory c = strip_leading_slashes (js_trim s)"
      using p by (simp add: pd_def coalesce_def)
    then have "strip_leading_slashes (js_trim s) \<noteq> []"
      using pd Some by (simp add: pd_def)
    then show ?thesis
      unfolding eq by (intro strip_leading_slashes_fixed hd_strip_leading_slashes)
  qed
  show "buildDirectory c \<noteq> []"
    using bd b by (cases bd) (simp_all add: coalesce_def)
  show "strip_leading_slashes (buildDirectory c) = buildDirectory c"
  proof (cases "opt_buildDirectory opts")
    case None
    then show ?thesis using b by (simp add: bd_def coalesce_def strip_leading_slashes_def)
  next
    case (Some s)
    then have eq: "buildDirectory c = strip_trailing_slashes (strip_leading_slashes (js_trim s))"
      using b by (simp add: bd_def coalesce_def)
    then have ne: "strip_trailing_slashes (strip_leading_slashes (js_trim s)) \<noteq> []"
      using bd Some by (simp add: bd_def)
    then have "strip_leading_slashes (js_trim s) \<noteq> []"
      by (auto simp: strip_trailing_slashes_def)
    then have "hd (strip_leading_slashes (js_trim s)) \<noteq> CHR ''/''"
      by (rule hd_strip_leading_slashes)
    then have "hd (strip_trailing_slashes (strip_leading_slashes (js_trim s))) \<noteq> CHR ''/''"
      using hd_strip_trailing_slashes [OF ne] by simp
    then show ?thesis
      unfolding eq using ne by (intro strip_leading_slashes_fixed)
  qed
  show "strip_trailing_slashes (buildDirectory c) = buildDirectory c"
  proof (cases "opt_buildDirectory opts")
    case None
    then show ?thesis using b by (simp add: bd_def coalesce_def strip_trailing_slashes_def)
  next
    case (Some s)
    then have eq: "buildDirectory c = strip_trailing_slashes (strip_leading_slashes (js_trim s))"
      using b by (simp add: bd_def coalesce_def)
    show ?thesis
      unfolding eq by (rule strip_trailing_slashes_idem)
  qed
qed

lemma resolvePluginConfig_options:
  "resolvePluginConfig join arg = Inr c \<Longrightarrow> \<exists>opts. resolve_plugin_options join opts = Inr c"
  by (cases arg) (auto simp: resolvePluginConfig_def)

lemma resolve_plugin_options_publicDirectory:
  "resolve_plugin_options join opts = Inr c \<Longrightarrow> opt_publicDirectory opts = Some p \<Longrightarrow>
   publicDirectory c = strip_leading_slashes (js_trim p)"
  by (auto simp: resolve_plugin_options_def Let_def coalesce_def split: option.splits if_splits)

lemma resolve_plugin_options_buildDirectory:
  "resolve_plugin_options join opts = Inr c \<Longrightarrow> opt_buildDirectory opts = Some b \<Longrightarrow>
   buildDirectory c = strip_trailing_slashes (strip_leading_slashes (js_trim b))"
  by (auto simp: resolve_plugin_options_def Let_def coalesce_def split: option.splits if_splits)

lemma resolve_plugin_options_empty_publicDirectory:
  "opt_publicDirectory opts = Some p \<Longrightarrow> strip_leading_slashes (js_trim p) = [] \<Longrightarrow>
   resolve_plugin_options join opts = Inl MissingInput
   \<or> resolve_plugin_options join opts = Inl EmptyPublicDirectory"
  by (simp add: resolve_plugin_options_def Let_def split: option.splits)

lemma resolve_plugin_options_empty_buildDirectory:
  "opt_buildDirectory opts = Some b \<Longrightarrow>
   strip_trailing_slashes (strip_leading_slashes (js_trim b)) = [] \<Longrightarrow>
   resolve_plugin_options join opts = Inl MissingInput
   \<or> resolve_plugin_options join opts = Inl EmptyPublicDirectory
   \<or> resolve_plugin_options join opts = Inl EmptyBuildDirectory"
  by (simp add: resolve_plugin_options_def Let_def split: option.splits)

lemma trim_public: "strip_leading_slashes (js_trim ''/public/'') = ''public/''"
  by (simp add: js_trim_def is_js_space_def strip_leading_slashes_def)

lemma trim_build: "strip_trailing_slashes (strip_leading_slashes (js_trim ''/build/'')) = ''build''"
  by (simp add: js_trim_def is_js_space_def strip_leading_slashes_def strip_trailing_slashes_def)

subsection \<open>The directories (C3)\<close>

text \<open>
  C3, as the code has it. Only the slashes at the start of \<open>publicDirectory\<close> are removed,
  so \<open>"/public/"\<close> becomes \<open>"public/"\<close>; \<open>buildDirectory\<close> loses the slashes at both ends, so
  \<open>"/build/"\<close> becomes \<open>"build"\<close>. Whenever the user's \<open>publicDirectory\<close> is empty after \<open>trim\<close>
  and the removal of the leading slashes, or the user's \<open>buildDirectory\<close> is empty after
  \<open>trim\<close> and the removal of the leading and trailing slashes, the result is an error of
  the specification's class \<open>ConfigurationError\<close> and no configuration.
\<close>

theorem resolvePluginConfig_directories:
  "(opt_input opts = Some i \<and> opt_publicDirectory opts = Some ''/public/''
      \<and> opt_buildDirectory opts = Some ''/build/'' \<longrightarrow>
      (\<exists>c. resolvePluginConfig join (ArgObject opts) = Inr c
           \<and> publicDirectory c = ''public/'' \<and> buildDirectory c = ''build''))
   \<and> (opt_publicDirectory opts = Some ''/public/''
        \<and> resolvePluginConfig join (ArgObject opts) = Inr c \<longrightarrow> publicDirectory c = ''public/'')
   \<and> (opt_buildDirectory opts = Some ''/build/''
        \<and> resolvePluginConfig join (ArgObject opts) = Inr c \<longrightarrow> buildDirectory c = ''build'')
   \<and> (opt_publicDirectory opts = Some p \<and> strip_leading_slashes (js_trim p) = [] \<longrightarrow>
        (\<exists>err. resolvePluginConfig join (ArgObject opts) = Inl err \<and> configuration_error err))
   \<and> (opt_buildDirectory opts = Some b
        \<and> strip_trailing_slashes (strip_leading_slashes (js_trim b)) = [] \<longrightarrow>
        (\<exists>err. resolvePluginConfig join (ArgObject opts) = Inl err \<and> configuration_error err))"
proof (intro conjI impI)
  assume a: "opt_input opts = Some i \<and> opt_publicDirectory opts = Some ''/public/''
      \<and> opt_buildDirectory opts = Some ''/build/''"
  then show "\<exists>c. resolvePluginConfig join (ArgObject opts) = Inr c
           \<and> publicDirectory c = ''public/'' \<and> buildDirectory c = ''build''"
    by (simp add: resolvePluginConfig_def resolve_plugin_options_def Let_def coalesce_def
        trim_public trim_build)
next
  assume "opt_publicDirectory opts = Some ''/public/''
        \<and> resolvePluginConfig join (ArgObject opts) = Inr c"
  then show "publicDirectory c = ''public/''"
    using resolve_plugin_options_publicDirectory [of join opts c "''/public/''"]
    by (simp add: resolvePluginConfig_def trim_public)
next
  assume "opt_buildDirectory opts = Some ''/build/''
        \<and> resolvePluginConfig join (ArgObject opts) = Inr c"
  then show "buildDirectory c = ''build''"
    using resolve_plugin_options_buildDirectory [of join opts c "''/build/''"]
    by (simp add: resolvePluginConfig_def trim_build)
next
  assume "opt_publicDirectory opts = Some p \<and> strip_leading_slashes (js_trim p) = []"
  then show "\<exists>err. resolvePluginConfig join (ArgObject opts) = Inl err \<and> configuration_error err"
    using resolve_plugin_options_empty_publicDirectory [of opts p join]
    by (auto simp: resolvePluginConfig_def configuration_error_def)
next
  assume "opt_buildDirectory opts = Some b
        \<and> strip_trailing_slashes (strip_leading_slashes (js_trim b)) = []"
  then show "\<exists>err. resolvePluginConfig join (ArgObject opts) = Inl err \<and> configuration_error err"
    using resolve_plugin_options_empty_buildDirectory [of opts b join]
    by (auto simp: resolvePluginConfig_def configuration_error_def)
qed

text \<open>
  The theorem at three objects: \<open>"/public/"\<close> with \<open>"/build/"\<close>, a \<open>publicDirectory\<close> of
  blanks and slashes, and the \<open>buildDirectory\<close> \<open>"/"\<close>.
\<close>

theorem resolvePluginConfig_directories_witness:
  "(\<exists>c. resolvePluginConfig join_segments
          (ArgObject \<lparr>opt_name = None, opt_input = Some (Path ''resources/js/app.js''),
                      opt_publicDirectory = Some ''/public/'',
                      opt_buildDirectory = Some ''/build/'', opt_hotFile = None,
                      opt_detectTls = None, opt_transformOnServe = None\<rparr>) = Inr c
        \<and> publicDirectory c = ''public/'' \<and> buildDirectory c = ''build'')
   \<and> (\<exists>err. resolvePluginConfig join_segments
          (ArgObject \<lparr>opt_name = None, opt_input = Some (Path ''resources/js/app.js''),
                      opt_publicDirectory = Some '' // '',
                      opt_buildDirectory = None, opt_hotFile = None,
                      opt_detectTls = None, opt_transformOnServe = None\<rparr>) = Inl err
        \<and> configuration_error err)
   \<and> (\<exists>err. resolvePluginConfig join_segments
          (ArgObject \<lparr>opt_name = None, opt_input = Some (Path ''resources/js/app.js''),
                      opt_publicDirectory = None,
                      opt_buildDirectory = Some ''/'', opt_hotFile = None,
                      opt_detectTls = None, opt_transformOnServe = None\<rparr>) = Inl err
        \<and> configuration_error err)"
proof -
  let ?o1 = "\<lparr>opt_name = None, opt_input = Some (Path ''resources/js/app.js''),
                      opt_publicDirectory = Some ''/public/'',
                      opt_buildDirectory = Some ''/build/'', opt_hotFile = None,
                      opt_detectTls = None, opt_transformOnServe = None\<rparr>"
  let ?o2 = "\<lparr>opt_name = None, opt_input = Some (Path ''resources/js/app.js''),
                      opt_publicDirectory = Some '' // '',
                      opt_buildDirectory = None, opt_hotFile = None,
                      opt_detectTls = None, opt_transformOnServe = None\<rparr>"
  let ?o3 = "\<lparr>opt_name = None, opt_input = Some (Path ''resources/js/app.js''),
                      opt_publicDirectory = None,
                      opt_buildDirectory = Some ''/'', opt_hotFile = None,
                      opt_detectTls = None, opt_transformOnServe = None\<rparr>"
  have e2: "strip_leading_slashes (js_trim '' // '') = []"
    by (simp add: js_trim_def is_js_space_def strip_leading_slashes_def)
  have e3: "strip_trailing_slashes (strip_leading_slashes (js_trim ''/'')) = []"
    by (simp add: js_trim_def is_js_space_def strip_leading_slashes_def strip_trailing_slashes_def)
  show ?thesis
    using resolvePluginConfig_directories
            [where opts = ?o1 and i = "Path ''resources/js/app.js''" and join = join_segments]
          resolvePluginConfig_directories
            [where opts = ?o2 and p = "'' // ''" and join = join_segments]
          resolvePluginConfig_directories
            [where opts = ?o3 and b = "''/''" and join = join_segments]
          e2 e3
    by simp
qed

text \<open>
  C3 as the specification words it fails at \<open>publicDirectory = "/public/"\<close>: the result
  keeps the trailing slash.
\<close>

theorem resolvePluginConfig_public_trailing_slash:
  "map_sum id publicDirectory
     (resolvePluginConfig join_segments
        (ArgObject \<lparr>opt_name = None, opt_input = Some (Path ''resources/js/app.js''),
                    opt_publicDirectory = Some ''/public/'', opt_buildDirectory = None,
                    opt_hotFile = None, opt_detectTls = None, opt_transformOnServe = None\<rparr>))
   = Inr ''public/''"
  by (simp add: resolvePluginConfig_def resolve_plugin_options_def coalesce_def trim_public)

subsection \<open>Idempotence (C7)\<close>

text \<open>
  C7, as the code has it. Normalizing a configuration that normalization produced gives
  the same configuration again, for an input of any of the three forms, whenever \<open>trim\<close>
  leaves the produced \<open>publicDirectory\<close> and \<open>buildDirectory\<close> unchanged, that is, whenever
  neither starts or ends with white space.
\<close>

theorem resolvePluginConfig_idempotent:
  assumes "resolvePluginConfig join arg = Inr c"
    and "js_trim (publicDirectory c) = publicDirectory c"
    and "js_trim (buildDirectory c) = buildDirectory c"
  shows "resolvePluginConfig join (ArgObject (options_of_config c)) = Inr c"
proof -
  obtain opts where "resolve_plugin_options join opts = Inr c"
    using assms(1) resolvePluginConfig_options by blast
  note d = normalized_directories [OF this]
  show ?thesis
    using d assms(2,3)
    by (simp add: resolvePluginConfig_def resolve_plugin_options_def options_of_config_def
        coalesce_def Let_def)
qed

text \<open>The theorem at the single path \<open>"resources/js/app.js"\<close>.\<close>

theorem resolvePluginConfig_idempotent_witness:
  "resolvePluginConfig join_segments (ArgString ''resources/js/app.js'')
     = Inr \<lparr>name = ''backend'', input = Path ''resources/js/app.js'',
            publicDirectory = ''public'', buildDirectory = ''build'',
            hotFile = ''public/hot'', detectTls = TlsNull, transformOnServe = identity_hook\<rparr>
   \<and> resolvePluginConfig join_segments
       (ArgObject (options_of_config
          \<lparr>name = ''backend'', input = Path ''resources/js/app.js'',
           publicDirectory = ''public'', buildDirectory = ''build'',
           hotFile = ''public/hot'', detectTls = TlsNull, transformOnServe = identity_hook\<rparr>))
     = Inr \<lparr>name = ''backend'', input = Path ''resources/js/app.js'',
            publicDirectory = ''public'', buildDirectory = ''build'',
            hotFile = ''public/hot'', detectTls = TlsNull, transformOnServe = identity_hook\<rparr>"
proof -
  let ?c = "\<lparr>name = ''backend'', input = Path ''resources/js/app.js'',
            publicDirectory = ''public'', buildDirectory = ''build'',
            hotFile = ''public/hot'', detectTls = TlsNull, transformOnServe = identity_hook\<rparr>"
  have first: "resolvePluginConfig join_segments (ArgString ''resources/js/app.js'') = Inr ?c"
    by (simp add: resolvePluginConfig_def resolve_plugin_options_def options_of_input_def
        coalesce_def join_segments_def)
  have p: "js_trim (publicDirectory ?c) = publicDirectory ?c"
    by (simp add: js_trim_def is_js_space_def)
  have b: "js_trim (buildDirectory ?c) = buildDirectory ?c"
    by (simp add: js_trim_def is_js_space_def)
  from resolvePluginConfig_idempotent [OF first p b] first show ?thesis
    by simp
qed

text \<open>
  C7 as the specification words it fails at \<open>publicDirectory = "/ public"\<close>: \<open>trim\<close> runs
  before the slashes are removed, so the first pass leaves \<open>" public"\<close>, and the second pass
  trims it to \<open>"public"\<close>.
\<close>

theorem resolvePluginConfig_not_idempotent:
  "resolvePluginConfig join_segments
     (ArgObject \<lparr>opt_name = None, opt_input = Some (Path ''resources/js/app.js''),
                 opt_publicDirectory = Some ''/ public'', opt_buildDirectory = None,
                 opt_hotFile = None, opt_detectTls = None, opt_transformOnServe = None\<rparr>)
     = Inr \<lparr>name = ''backend'', input = Path ''resources/js/app.js'',
            publicDirectory = '' public'', buildDirectory = ''build'',
            hotFile = '' public/hot'', detectTls = TlsNull, transformOnServe = identity_hook\<rparr>
   \<and> resolvePluginConfig join_segments
       (ArgObject (options_of_config
          \<lparr>name = ''backend'', input = Path ''resources/js/app.js'',
           publicDirectory = '' public'', buildDirectory = ''build'',
           hotFile = '' public/hot'', detectTls = TlsNull, transformOnServe = identity_hook\<rparr>))
     = Inr \<lparr>name = ''backend'', input = Path ''resources/js/app.js'',
            publicDirectory = ''public'', buildDirectory = ''build'',
            hotFile = '' public/hot'', detectTls = TlsNull, transformOnServe = identity_hook\<rparr>"
  by (simp add: resolvePluginConfig_def resolve_plugin_options_def options_of_config_def
      coalesce_def join_segments_def js_trim_def is_js_space_def strip_leading_slashes_def
      strip_trailing_slashes_def)

section \<open>The server configuration from the environment (C4)\<close>

lemma existsSync_Some: "existsSync fs p \<Longrightarrow> \<exists>f d. p = Some f \<and> file_at fs f = Some d"
  by (cases p) (auto simp: existsSync_def)

lemma not_truthy_not_exists: "\<not> truthy p \<Longrightarrow> \<not> existsSync fs p"
  by (cases p) (auto simp: truthy_def existsSync_def file_at_def)

text \<open>
  C4, as the code has it, where a variable counts as set when its value is not the empty
  string. When neither the key path nor the certificate path is set, the result is
  \<open>undefined\<close>. When exactly one is set, or at least one is set and one of the two paths
  does not exist, the function throws (the error that names both variables). When both
  paths exist and no host can be read from \<open>APP_URL\<close> (the parser throws or the host is
  empty), the function throws. When both exist and a host is read, the function returns an
  object; and every object it returns has the host as \<open>host\<close>, \<open>{host}\<close> as \<open>hmr\<close>, and the
  contents of the two files as \<open>https.key\<close> and \<open>https.cert\<close>.
\<close>

theorem resolveEnvironmentServerConfig_cases:
  "(\<not> truthy (e ''VITE_DEV_SERVER_KEY'') \<and> \<not> truthy (e ''VITE_DEV_SERVER_CERT'') \<longrightarrow>
      resolveEnvironmentServerConfig url_host fs e = Inr None)
   \<and> (truthy (e ''VITE_DEV_SERVER_KEY'') \<noteq> truthy (e ''VITE_DEV_SERVER_CERT'') \<longrightarrow>
      resolveEnvironmentServerConfig url_host fs e
      = Inl (CertificateFilesNotFound (e ''VITE_DEV_SERVER_KEY'') (e ''VITE_DEV_SERVER_CERT'')))
   \<and> ((truthy (e ''VITE_DEV_SERVER_KEY'') \<or> truthy (e ''VITE_DEV_SERVER_CERT''))
       \<and> (\<not> existsSync fs (e ''VITE_DEV_SERVER_KEY'')
            \<or> \<not> existsSync fs (e ''VITE_DEV_SERVER_CERT'')) \<longrightarrow>
      resolveEnvironmentServerConfig url_host fs e
      = Inl (CertificateFilesNotFound (e ''VITE_DEV_SERVER_KEY'') (e ''VITE_DEV_SERVER_CERT'')))
   \<and> (existsSync fs (e ''VITE_DEV_SERVER_KEY'') \<and> existsSync fs (e ''VITE_DEV_SERVER_CERT'')
       \<and> \<not> truthy (resolveHostFromEnv url_host e) \<longrightarrow>
      resolveEnvironmentServerConfig url_host fs e = Inl (HostNotDetermined (e ''APP_URL'')))
   \<and> (existsSync fs (e ''VITE_DEV_SERVER_KEY'') \<and> existsSync fs (e ''VITE_DEV_SERVER_CERT'')
       \<and> truthy (resolveHostFromEnv url_host e) \<longrightarrow>
      (\<exists>r. resolveEnvironmentServerConfig url_host fs e = Inr (Some r)))
   \<and> (resolveEnvironmentServerConfig url_host fs e = Inr (Some r) \<longrightarrow>
      (\<exists>h key_path cert_path.
         resolveHostFromEnv url_host e = Some h \<and> env_host r = h
         \<and> env_hmr r = [''host'' \<mapsto> JString h]
         \<and> e ''VITE_DEV_SERVER_KEY'' = Some key_path \<and> e ''VITE_DEV_SERVER_CERT'' = Some cert_path
         \<and> file_at fs key_path = Some (key (env_https r))
         \<and> file_at fs cert_path = Some (cert (env_https r))))"
proof (intro conjI impI)
  assume "\<not> truthy (e ''VITE_DEV_SERVER_KEY'') \<and> \<not> truthy (e ''VITE_DEV_SERVER_CERT'')"
  then show "resolveEnvironmentServerConfig url_host fs e = Inr None"
    by (simp add: resolveEnvironmentServerConfig_def)
next
  assume "truthy (e ''VITE_DEV_SERVER_KEY'') \<noteq> truthy (e ''VITE_DEV_SERVER_CERT'')"
  then show "resolveEnvironmentServerConfig url_host fs e
      = Inl (CertificateFilesNotFound (e ''VITE_DEV_SERVER_KEY'') (e ''VITE_DEV_SERVER_CERT''))"
    using not_truthy_not_exists [of "e ''VITE_DEV_SERVER_KEY''" fs]
      not_truthy_not_exists [of "e ''VITE_DEV_SERVER_CERT''" fs]
    by (auto simp: resolveEnvironmentServerConfig_def)
next
  assume "(truthy (e ''VITE_DEV_SERVER_KEY'') \<or> truthy (e ''VITE_DEV_SERVER_CERT''))
       \<and> (\<not> existsSync fs (e ''VITE_DEV_SERVER_KEY'')
            \<or> \<not> existsSync fs (e ''VITE_DEV_SERVER_CERT''))"
  then show "resolveEnvironmentServerConfig url_host fs e
      = Inl (CertificateFilesNotFound (e ''VITE_DEV_SERVER_KEY'') (e ''VITE_DEV_SERVER_CERT''))"
    by (auto simp: resolveEnvironmentServerConfig_def)
next
  assume a: "existsSync fs (e ''VITE_DEV_SERVER_KEY'') \<and> existsSync fs (e ''VITE_DEV_SERVER_CERT'')
       \<and> \<not> truthy (resolveHostFromEnv url_host e)"
  then have "truthy (e ''VITE_DEV_SERVER_KEY'')"
    using not_truthy_not_exists [of "e ''VITE_DEV_SERVER_KEY''" fs] by blast
  with a show "resolveEnvironmentServerConfig url_host fs e = Inl (HostNotDetermined (e ''APP_URL''))"
    by (simp add: resolveEnvironmentServerConfig_def Let_def)
next
  assume a: "existsSync fs (e ''VITE_DEV_SERVER_KEY'') \<and> existsSync fs (e ''VITE_DEV_SERVER_CERT'')
       \<and> truthy (resolveHostFromEnv url_host e)"
  then have t: "truthy (e ''VITE_DEV_SERVER_KEY'')"
    using not_truthy_not_exists [of "e ''VITE_DEV_SERVER_KEY''" fs] by blast
  obtain kp k where k: "e ''VITE_DEV_SERVER_KEY'' = Some kp" "file_at fs kp = Some k"
    using a existsSync_Some by blast
  obtain cp c where c: "e ''VITE_DEV_SERVER_CERT'' = Some cp" "file_at fs cp = Some c"
    using a existsSync_Some by blast
  obtain h where h: "resolveHostFromEnv url_host e = Some h"
    using a by (cases "resolveHostFromEnv url_host e") (auto simp: truthy_def)
  show "\<exists>r. resolveEnvironmentServerConfig url_host fs e = Inr (Some r)"
    using a t k c h by (simp add: resolveEnvironmentServerConfig_def Let_def readFileSync_def)
next
  assume "resolveEnvironmentServerConfig url_host fs e = Inr (Some r)"
  then show "\<exists>h key_path cert_path.
         resolveHostFromEnv url_host e = Some h \<and> env_host r = h
         \<and> env_hmr r = [''host'' \<mapsto> JString h]
         \<and> e ''VITE_DEV_SERVER_KEY'' = Some key_path \<and> e ''VITE_DEV_SERVER_CERT'' = Some cert_path
         \<and> file_at fs key_path = Some (key (env_https r))
         \<and> file_at fs cert_path = Some (cert (env_https r))"
    by (auto simp: resolveEnvironmentServerConfig_def Let_def readFileSync_def
        split: if_splits option.splits sum.splits)
qed

text \<open>
  The theorem at five environments: nothing set; the key alone; both set and the
  certificate file missing; both files there and no \<open>APP_URL\<close>; both files there and an
  \<open>APP_URL\<close> with a host.
\<close>

theorem resolveEnvironmentServerConfig_cases_witness:
  "resolveEnvironmentServerConfig Map.empty Map.empty Map.empty = Inr None
   \<and> isl (resolveEnvironmentServerConfig Map.empty [''/certs/app.key'' \<mapsto> ''KEY'']
            [''VITE_DEV_SERVER_KEY'' \<mapsto> ''/certs/app.key''])
   \<and> isl (resolveEnvironmentServerConfig Map.empty [''/certs/app.key'' \<mapsto> ''KEY'']
            [''VITE_DEV_SERVER_KEY'' \<mapsto> ''/certs/app.key'',
             ''VITE_DEV_SERVER_CERT'' \<mapsto> ''/certs/app.crt''])
   \<and> isl (resolveEnvironmentServerConfig Map.empty
            [''/certs/app.key'' \<mapsto> ''KEY'', ''/certs/app.crt'' \<mapsto> ''CERT'']
            [''VITE_DEV_SERVER_KEY'' \<mapsto> ''/certs/app.key'',
             ''VITE_DEV_SERVER_CERT'' \<mapsto> ''/certs/app.crt''])
   \<and> (\<exists>r. resolveEnvironmentServerConfig app_url_host tls_files tls_env = Inr (Some r))"
proof -
  let ?fs1 = "[''/certs/app.key'' \<mapsto> ''KEY'']"
  let ?fs2 = "[''/certs/app.key'' \<mapsto> ''KEY'', ''/certs/app.crt'' \<mapsto> ''CERT'']"
  let ?e1 = "[''VITE_DEV_SERVER_KEY'' \<mapsto> ''/certs/app.key'']"
  let ?e2 = "[''VITE_DEV_SERVER_KEY'' \<mapsto> ''/certs/app.key'',
             ''VITE_DEV_SERVER_CERT'' \<mapsto> ''/certs/app.crt'']"
  note t = resolveEnvironmentServerConfig_cases
  have 1: "resolveEnvironmentServerConfig Map.empty Map.empty Map.empty = Inr None"
    using t [of Map.empty Map.empty Map.empty] by (simp add: truthy_def)
  have 2: "isl (resolveEnvironmentServerConfig Map.empty ?fs1 ?e1)"
    using t [of ?e1 Map.empty ?fs1] by (simp add: truthy_def)
  have 3: "isl (resolveEnvironmentServerConfig Map.empty ?fs1 ?e2)"
    using t [of ?e2 Map.empty ?fs1] by (simp add: truthy_def existsSync_def file_at_def)
  have 4: "isl (resolveEnvironmentServerConfig Map.empty ?fs2 ?e2)"
    using t [of ?e2 Map.empty ?fs2]
    by (simp add: truthy_def existsSync_def file_at_def resolveHostFromEnv_def)
  have 5: "\<exists>r. resolveEnvironmentServerConfig app_url_host tls_files tls_env = Inr (Some r)"
    using t [of tls_env app_url_host tls_files]
    by (simp add: truthy_def existsSync_def file_at_def resolveHostFromEnv_def coalesce_def
        tls_env_def tls_files_def app_url_host_def)
  from 1 2 3 4 5 show ?thesis
    by blast
qed

text \<open>
  C4 as the specification words it fails where the key variable is set to the empty string
  and the certificate variable is not set: exactly one of the two is set, and the function
  returns \<open>undefined\<close> instead of throwing.
\<close>

theorem resolveEnvironmentServerConfig_empty_key:
  "resolveEnvironmentServerConfig Map.empty Map.empty [''VITE_DEV_SERVER_KEY'' \<mapsto> []] = Inr None"
  by (simp add: resolveEnvironmentServerConfig_def truthy_def)

section \<open>The \<open>config\<close> hook (C5, C10)\<close>

lemma tls_environment:
  "resolveEnvironmentServerConfig app_url_host tls_files tls_env
   = Inr (Some \<lparr>env_hmr = [''host'' \<mapsto> JString ''app.test''], env_host = ''app.test'',
                 env_https = \<lparr>key = ''KEY'', cert = ''CERT''\<rparr>\<rparr>)"
  by (simp add: resolveEnvironmentServerConfig_def tls_env_def tls_files_def app_url_host_def
      truthy_def existsSync_def file_at_def resolveHostFromEnv_def coalesce_def readFileSync_def)

lemma config_Inr:
  assumes "config join url_host fs e pc uc cmd = Inr m"
  obtains sc where
    "(if cmd = Serve then resolveEnvironmentServerConfig url_host fs e else Inr None) = Inr sc"
    and "base m = Some (coalesce (base uc)
                          (if cmd = Build then resolveBase pc (coalesce (e ''ASSET_URL'') []) else []))"
    and "publicDir m = Some (coalesce (publicDir uc) PublicDirFalse)"
    and "chain (build m) manifest
         = Some (coalesce (chain (build uc) manifest) (ManifestFile ''manifest.json''))"
    and "chain (build m) outDir = Some (coalesce (chain (build uc) outDir) (resolveOutDir join pc))"
    and "chain (chain (build m) rollupOptions) rollup_input
         = Some (coalesce (chain (chain (build uc) rollupOptions) rollup_input)
                   (input_of_entry (resolveInput pc)))"
    and "chain (build m) assetsInlineLimit
         = Some (coalesce (chain (build uc) assetsInlineLimit) 0)"
    and "server m = Some (merge_server (server uc) sc)"
  using assms
  by (auto simp: config_def Let_def chain_def split: sum.splits)

lemma chain_Some: "chain (Some x) f = f x"
  by (simp add: chain_def)

text \<open>In build mode the hook always returns a configuration.\<close>

lemma config_build_returns: "\<exists>m. config join url_host fs e pc uc Build = Inr m"
  by (simp add: config_def Let_def)

lemma merge_hmr_object:
  "h k = Some v \<Longrightarrow> \<exists>h'. merge_hmr eh (Some (HmrObject h)) = HmrObject h' \<and> h' k = Some v"
  by (simp add: merge_hmr_def)

subsection \<open>The user's values (C5)\<close>

text \<open>
  C5, as the code has it. Whenever the hook returns a configuration, every one of \<open>base\<close>,
  \<open>publicDir\<close>, \<open>build.manifest\<close>, \<open>build.outDir\<close>, \<open>build.rollupOptions.input\<close>,
  \<open>build.assetsInlineLimit\<close> and \<open>server.origin\<close> that the user set is in the result with the
  user's value. In serve mode with a server configuration from the environment, the same
  holds of \<open>server.host\<close>, \<open>server.https\<close> and of every property of a \<open>server.hmr\<close> object.
  In build mode, and in serve mode when the environment gives no server configuration, the
  returned \<open>server\<close> object has no \<open>host\<close>, \<open>hmr\<close> or \<open>https\<close> property at all: neither the
  user's value nor a computed one.
\<close>

theorem config_keeps_user_values:
  assumes "config join url_host fs e pc uc cmd = Inr m"
  shows "(base uc = Some v1 \<longrightarrow> base m = Some v1)
    \<and> (publicDir uc = Some v2 \<longrightarrow> publicDir m = Some v2)
    \<and> (chain (build uc) manifest = Some v3 \<longrightarrow> chain (build m) manifest = Some v3)
    \<and> (chain (build uc) outDir = Some v4 \<longrightarrow> chain (build m) outDir = Some v4)
    \<and> (chain (chain (build uc) rollupOptions) rollup_input = Some v5 \<longrightarrow>
          chain (chain (build m) rollupOptions) rollup_input = Some v5)
    \<and> (chain (build uc) assetsInlineLimit = Some v6 \<longrightarrow>
          chain (build m) assetsInlineLimit = Some v6)
    \<and> (chain (server uc) origin = Some v7 \<longrightarrow> chain (server m) origin = Some v7)
    \<and> (cmd = Serve \<and> resolveEnvironmentServerConfig url_host fs e = Inr (Some sc) \<longrightarrow>
          (chain (server uc) host = Some v8 \<longrightarrow> chain (server m) host = Some v8)
        \<and> (chain (server uc) https = Some v9 \<longrightarrow> chain (server m) https = Some v9)
        \<and> (chain (server uc) hmr = Some (HmrObject h) \<and> h k = Some v10 \<longrightarrow>
              (\<exists>h'. chain (server m) hmr = Some (HmrObject h') \<and> h' k = Some v10)))
    \<and> (cmd = Build \<or> resolveEnvironmentServerConfig url_host fs e = Inr None \<longrightarrow>
          chain (server m) host = None \<and> chain (server m) hmr = None
        \<and> chain (server m) https = None)"
proof -
  from assms obtain s where
    s: "(if cmd = Serve then resolveEnvironmentServerConfig url_host fs e else Inr None) = Inr s"
    and b: "base m = Some (coalesce (base uc)
                          (if cmd = Build then resolveBase pc (coalesce (e ''ASSET_URL'') []) else []))"
    and p: "publicDir m = Some (coalesce (publicDir uc) PublicDirFalse)"
    and mf: "chain (build m) manifest
         = Some (coalesce (chain (build uc) manifest) (ManifestFile ''manifest.json''))"
    and od: "chain (build m) outDir = Some (coalesce (chain (build uc) outDir) (resolveOutDir join pc))"
    and ri: "chain (chain (build m) rollupOptions) rollup_input
         = Some (coalesce (chain (chain (build uc) rollupOptions) rollup_input)
                   (input_of_entry (resolveInput pc)))"
    and al: "chain (build m) assetsInlineLimit
         = Some (coalesce (chain (build uc) assetsInlineLimit) 0)"
    and sv: "server m = Some (merge_server (server uc) s)"
    by (rule config_Inr)
  have 1: "base uc = Some v1 \<longrightarrow> base m = Some v1"
    using b by (simp add: coalesce_def)
  have 2: "publicDir uc = Some v2 \<longrightarrow> publicDir m = Some v2"
    using p by (simp add: coalesce_def)
  have 3: "chain (build uc) manifest = Some v3 \<longrightarrow> chain (build m) manifest = Some v3"
    using mf by (simp add: coalesce_def)
  have 4: "chain (build uc) outDir = Some v4 \<longrightarrow> chain (build m) outDir = Some v4"
    using od by (simp add: coalesce_def)
  have 5: "chain (chain (build uc) rollupOptions) rollup_input = Some v5 \<longrightarrow>
          chain (chain (build m) rollupOptions) rollup_input = Some v5"
    using ri by (simp add: coalesce_def)
  have 6: "chain (build uc) assetsInlineLimit = Some v6 \<longrightarrow>
          chain (build m) assetsInlineLimit = Some v6"
    using al by (simp add: coalesce_def)
  have 7: "chain (server uc) origin = Some v7 \<longrightarrow> chain (server m) origin = Some v7"
    using sv by (cases s) (simp_all add: merge_server_def coalesce_def chain_Some)
  have 8: "cmd = Serve \<and> resolveEnvironmentServerConfig url_host fs e = Inr (Some sc) \<longrightarrow>
          (chain (server uc) host = Some v8 \<longrightarrow> chain (server m) host = Some v8)
        \<and> (chain (server uc) https = Some v9 \<longrightarrow> chain (server m) https = Some v9)
        \<and> (chain (server uc) hmr = Some (HmrObject h) \<and> h k = Some v10 \<longrightarrow>
              (\<exists>h'. chain (server m) hmr = Some (HmrObject h') \<and> h' k = Some v10))"
  proof (intro impI)
    assume "cmd = Serve \<and> resolveEnvironmentServerConfig url_host fs e = Inr (Some sc)"
    with s have "s = Some sc"
      by simp
    with sv have m: "server m = Some (merge_server (server uc) (Some sc))"
      by simp
    show "(chain (server uc) host = Some v8 \<longrightarrow> chain (server m) host = Some v8)
        \<and> (chain (server uc) https = Some v9 \<longrightarrow> chain (server m) https = Some v9)
        \<and> (chain (server uc) hmr = Some (HmrObject h) \<and> h k = Some v10 \<longrightarrow>
              (\<exists>h'. chain (server m) hmr = Some (HmrObject h') \<and> h' k = Some v10))"
      using m merge_hmr_object [of h k v10 "env_hmr sc"]
      by (auto simp: merge_server_def coalesce_def chain_Some)
  qed
  have 9: "cmd = Build \<or> resolveEnvironmentServerConfig url_host fs e = Inr None \<longrightarrow>
          chain (server m) host = None \<and> chain (server m) hmr = None
        \<and> chain (server m) https = None"
  proof (intro impI)
    assume "cmd = Build \<or> resolveEnvironmentServerConfig url_host fs e = Inr None"
    with s have "s = None"
      by (auto split: if_splits)
    with sv show "chain (server m) host = None \<and> chain (server m) hmr = None
        \<and> chain (server m) https = None"
      by (simp add: merge_server_def chain_Some)
  qed
  from 1 2 3 4 5 6 7 8 9 show ?thesis
    by blast
qed

text \<open>
  The theorem in serve mode with the environment \<open>tls_env\<close>, at a user configuration with
  \<open>base = "/custom/"\<close>, an \<open>outDir\<close>, a \<open>server.host\<close> and an HMR protocol.
\<close>

theorem config_keeps_user_values_witness:
  "\<exists>m. config join_segments app_url_host tls_files tls_env app_plugin_config
          \<lparr>base = Some ''/custom/'', publicDir = None,
           build = Some \<lparr>manifest = None, outDir = Some ''dist'', rollupOptions = None,
                         assetsInlineLimit = None\<rparr>,
           server = Some \<lparr>origin = None, host = Some (HostName ''0.0.0.0''),
                          hmr = Some (HmrObject [''protocol'' \<mapsto> JString ''ws'']),
                          https = None\<rparr>,
           resolve = None\<rparr> Serve = Inr m
      \<and> base m = Some ''/custom/''
      \<and> chain (build m) outDir = Some ''dist''
      \<and> chain (server m) host = Some (HostName ''0.0.0.0'')
      \<and> (\<exists>h'. chain (server m) hmr = Some (HmrObject h')
                \<and> h' ''protocol'' = Some (JString ''ws''))"
proof -
  let ?uc = "\<lparr>base = Some ''/custom/'', publicDir = None,
           build = Some \<lparr>manifest = None, outDir = Some ''dist'', rollupOptions = None,
                         assetsInlineLimit = None\<rparr>,
           server = Some \<lparr>origin = None, host = Some (HostName ''0.0.0.0''),
                          hmr = Some (HmrObject [''protocol'' \<mapsto> JString ''ws'']),
                          https = None\<rparr>,
           resolve = None\<rparr>"
  have "\<exists>m. config join_segments app_url_host tls_files tls_env app_plugin_config ?uc Serve = Inr m"
    by (simp add: config_def tls_environment Let_def)
  then obtain m where
    m: "config join_segments app_url_host tls_files tls_env app_plugin_config ?uc Serve = Inr m"
    by blast
  have "base m = Some ''/custom/''
      \<and> chain (build m) outDir = Some ''dist''
      \<and> chain (server m) host = Some (HostName ''0.0.0.0'')
      \<and> (\<exists>h'. chain (server m) hmr = Some (HmrObject h')
                \<and> h' ''protocol'' = Some (JString ''ws''))"
    using config_keeps_user_values
            [OF m, where ?v1.0 = "''/custom/''" and ?v4.0 = "''dist''"
               and ?v8.0 = "HostName ''0.0.0.0''"
               and h = "[''protocol'' \<mapsto> JString ''ws'']" and k = "''protocol''"
               and ?v10.0 = "JString ''ws''"
               and sc = "\<lparr>env_hmr = [''host'' \<mapsto> JString ''app.test''], env_host = ''app.test'',
                 env_https = \<lparr>key = ''KEY'', cert = ''CERT''\<rparr>\<rparr>"]
    by (simp add: chain_Some tls_environment)
  with m show ?thesis
    by blast
qed

text \<open>
  C5 as the specification words it fails in build mode at a user configuration with
  \<open>server.host = "0.0.0.0"\<close>: the configuration the hook returns has no \<open>server.host\<close>.
\<close>

theorem config_build_drops_server_host:
  "config join_segments Map.empty Map.empty Map.empty app_plugin_config
     \<lparr>base = None, publicDir = None, build = None,
      server = Some \<lparr>origin = None, host = Some (HostName ''0.0.0.0''), hmr = None,
                     https = None\<rparr>,
      resolve = None\<rparr> Build
   = Inr \<lparr>base = Some ''/build/'', publicDir = Some PublicDirFalse,
          build = Some \<lparr>manifest = Some (ManifestFile ''manifest.json''),
                        outDir = Some ''public/build'',
                        rollupOptions = Some \<lparr>rollup_input = Some (InputPath ''resources/js/app.js'')\<rparr>,
                        assetsInlineLimit = Some 0\<rparr>,
          server = Some \<lparr>origin = Some ''__backend_vite_placeholder__'', host = None,
                         hmr = None, https = None\<rparr>,
          resolve = Some \<lparr>resolve_alias = Some (AliasObject [])\<rparr>\<rparr>"
  by (simp add: config_def Let_def coalesce_def chain_def app_plugin_config_def resolveBase_def
      ends_with_slash_def resolveOutDir_def join_segments_def resolveInput_def merge_server_def)

subsection \<open>\<open>server.hmr\<close> set to \<open>true\<close> or \<open>false\<close> (C10)\<close>

text \<open>
  C10. In serve mode with a server configuration from the environment, the hook returns a
  configuration; when the user's \<open>server.hmr\<close> is \<open>true\<close> its \<open>server.hmr\<close> is the
  environment's \<open>hmr\<close> object, and when the user's \<open>server.hmr\<close> is \<open>false\<close> it is \<open>false\<close>.
\<close>

theorem config_hmr_flag:
  assumes "resolveEnvironmentServerConfig url_host fs e = Inr (Some sc)"
  shows "(chain (server uc) hmr = Some (HmrFlag True) \<longrightarrow>
           (\<exists>m. config join url_host fs e pc uc Serve = Inr m
                \<and> chain (server m) hmr = Some (HmrObject (env_hmr sc))))
       \<and> (chain (server uc) hmr = Some (HmrFlag False) \<longrightarrow>
           (\<exists>m. config join url_host fs e pc uc Serve = Inr m
                \<and> chain (server m) hmr = Some (HmrFlag False)))"
  using assms
  by (simp add: config_def Let_def chain_Some merge_server_def merge_hmr_def)

text \<open>The theorem with the environment \<open>tls_env\<close>, at \<open>hmr: true\<close> and at \<open>hmr: false\<close>.\<close>

theorem config_hmr_flag_witness:
  "(\<exists>m. config join_segments app_url_host tls_files tls_env app_plugin_config
           \<lparr>base = None, publicDir = None, build = None,
            server = Some \<lparr>origin = None, host = None, hmr = Some (HmrFlag True),
                           https = None\<rparr>,
            resolve = None\<rparr> Serve = Inr m
       \<and> chain (server m) hmr = Some (HmrObject [''host'' \<mapsto> JString ''app.test'']))
   \<and> (\<exists>m. config join_segments app_url_host tls_files tls_env app_plugin_config
           \<lparr>base = None, publicDir = None, build = None,
            server = Some \<lparr>origin = None, host = None, hmr = Some (HmrFlag False),
                           https = None\<rparr>,
            resolve = None\<rparr> Serve = Inr m
       \<and> chain (server m) hmr = Some (HmrFlag False))"
  using config_hmr_flag [OF tls_environment, of
          "\<lparr>base = None, publicDir = None, build = None,
            server = Some \<lparr>origin = None, host = None, hmr = Some (HmrFlag True),
                           https = None\<rparr>,
            resolve = None\<rparr>" join_segments app_plugin_config]
        config_hmr_flag [OF tls_environment, of
          "\<lparr>base = None, publicDir = None, build = None,
            server = Some \<lparr>origin = None, host = None, hmr = Some (HmrFlag False),
                           https = None\<rparr>,
            resolve = None\<rparr>" join_segments app_plugin_config]
  by (simp add: chain_Some)

section \<open>The hot file (C2, C9)\<close>

lemma listeners_first_call:
  "listeners (configureServer pc has_http (initial_process fs))
   = [(Exit, Clean (hotFile pc)), (SIGINT, ExitProcess), (SIGTERM, ExitProcess),
      (SIGHUP, ExitProcess)]"
  by (simp add: configureServer_def initial_process_def Let_def)

lemma listening_once_first_call:
  "listening_once (configureServer pc True (initial_process fs)) = [pc]"
  by (simp add: configureServer_def initial_process_def Let_def)

lemma files_first_call:
  "files (configureServer pc has_http (initial_process fs)) = fs"
  by (simp add: configureServer_def initial_process_def Let_def)

lemma emit_exit_four:
  "emit_exit [(Exit, Clean h), (SIGINT, ExitProcess), (SIGTERM, ExitProcess), (SIGHUP, ExitProcess)] fs
   = clean h fs"
  by (cases "clean h fs") simp_all

lemma process_exit_four:
  assumes "listeners p = [(Exit, Clean h), (SIGINT, ExitProcess), (SIGTERM, ExitProcess),
      (SIGHUP, ExitProcess)]"
  shows "process_exit p
         = (case clean h (files p) of Inl err \<Rightarrow> Inl err | Inr fs \<Rightarrow> Inr (p\<lparr>files := fs\<rparr>))"
  unfolding process_exit_def assms emit_exit_four by simp

lemma signal_four:
  assumes "listeners p = [(Exit, Clean h), (SIGINT, ExitProcess), (SIGTERM, ExitProcess),
      (SIGHUP, ExitProcess)]"
    and "ev \<noteq> Exit"
  shows "signal ev p = process_exit p"
  using assms(2) by (cases ev) (simp_all add: signal_def assms(1))

lemma listening_AddressInfo:
  assumes "userConfig st = Some uc" and "can_write writable (hotFile pc)"
  shows "listening writable pc (AddressInfo a) cfg (st, fs)
         = ((st\<lparr>viteDevServerUrl :=
                  Some (if truthy (chain (server uc) origin)
                        then coalesce (chain (server uc) origin) []
                        else resolveDevServerUrl a cfg)\<rparr>,
             fs(hotFile pc \<mapsto>
                  (if truthy (chain (server uc) origin)
                   then coalesce (chain (server uc) origin) []
                   else resolveDevServerUrl a cfg))), None)"
  using assms by (simp add: listening_def writeFileSync_def)

lemma plain_url:
  "resolveDevServerUrl local_address plain_serve_config = ''http://127.0.0.1:5173''"
  by (simp add: resolveDevServerUrl_def plain_serve_config_def local_address_def hmr_field_def
      truthy_def coalesce_def isIpv6_def number_to_string_5173)

subsection \<open>The round trip (C2)\<close>

text \<open>
  C2, as the code has it. Take a process in which \<open>configureServer\<close> has run once, for this
  plugin and with an HTTP server; let the \<open>config\<close> hook have run before, as it has when
  Vite starts a server; and let the hot file's path be one at which a write succeeds. When
  the server emits \<open>listening\<close> with an \<open>AddressInfo\<close>, the handler that \<open>configureServer\<close>
  attached runs and does not throw, and afterwards the hot file exists and holds exactly
  the URL, which is the user's \<open>server.origin\<close> when that is set and is not the empty
  string, and the resolved dev server URL otherwise; \<open>viteDevServerUrl\<close> is that URL. Then
  \<open>process.exit()\<close> and each of the signals SIGINT, SIGTERM and SIGHUP run the \<open>clean\<close>
  closure, after which the hot file does not exist; a second exit, and a second \<open>clean\<close>,
  return without throwing and change nothing; and so do \<open>clean\<close> and the exit in every file
  system in which the hot file does not exist.
\<close>

theorem hot_file_round_trip:
  assumes "userConfig (closures 0) = Some uc" and "can_write writable (hotFile pc)"
  shows
    "(let url = (case chain (server uc) origin of
                   None \<Rightarrow> resolveDevServerUrl a cfg
                 | Some orig \<Rightarrow> if orig = [] then resolveDevServerUrl a cfg else orig);
          after_listening = fs(hotFile pc \<mapsto> url);
          after_teardown = after_listening(hotFile pc := None);
          p = (configureServer pc True (initial_process fs))\<lparr>listening_once := []\<rparr>
      in emit_listening writable (AddressInfo a) cfg closures
           (configureServer pc True (initial_process fs))
           = ((closures(0 := (closures 0)\<lparr>viteDevServerUrl := Some url\<rparr>),
               p\<lparr>files := after_listening\<rparr>), None)
         \<and> existsSync after_listening (Some (hotFile pc))
         \<and> readFileSync after_listening (hotFile pc) = Inr url
         \<and> process_exit (p\<lparr>files := after_listening\<rparr>) = Inr (p\<lparr>files := after_teardown\<rparr>)
         \<and> signal SIGINT (p\<lparr>files := after_listening\<rparr>) = Inr (p\<lparr>files := after_teardown\<rparr>)
         \<and> signal SIGTERM (p\<lparr>files := after_listening\<rparr>) = Inr (p\<lparr>files := after_teardown\<rparr>)
         \<and> signal SIGHUP (p\<lparr>files := after_listening\<rparr>) = Inr (p\<lparr>files := after_teardown\<rparr>)
         \<and> \<not> existsSync after_teardown (Some (hotFile pc))
         \<and> process_exit (p\<lparr>files := after_teardown\<rparr>) = Inr (p\<lparr>files := after_teardown\<rparr>)
         \<and> clean (hotFile pc) after_teardown = Inr after_teardown)
     \<and> (\<not> existsSync fs (Some (hotFile pc)) \<longrightarrow>
          clean (hotFile pc) fs = Inr fs
          \<and> process_exit (configureServer pc True (initial_process fs))
              = Inr (configureServer pc True (initial_process fs)))"
proof -
  define url where "url = (case chain (server uc) origin of
                   None \<Rightarrow> resolveDevServerUrl a cfg
                 | Some orig \<Rightarrow> if orig = [] then resolveDevServerUrl a cfg else orig)"
  define fs1 where "fs1 = fs(hotFile pc \<mapsto> url)"
  define fs2 where "fs2 = fs1(hotFile pc := None)"
  define p0 where "p0 = configureServer pc True (initial_process fs)"
  define p where "p = p0\<lparr>listening_once := []\<rparr>"
  have ne: "hotFile pc \<noteq> []"
    using assms(2) by (simp add: can_write_def)
  have u: "(if truthy (chain (server uc) origin)
                        then coalesce (chain (server uc) origin) []
                        else resolveDevServerUrl a cfg) = url"
    by (simp add: url_def truthy_def coalesce_def split: option.splits)
  have l: "listening writable pc (AddressInfo a) cfg (closures 0, fs)
           = (((closures 0)\<lparr>viteDevServerUrl := Some url\<rparr>, fs1), None)"
    using listening_AddressInfo [OF assms, of a cfg fs] unfolding u fs1_def .
  have e: "emit_listening writable (AddressInfo a) cfg closures p0
           = ((closures(0 := (closures 0)\<lparr>viteDevServerUrl := Some url\<rparr>),
               p\<lparr>files := fs1\<rparr>), None)"
    unfolding p_def p0_def
    by (simp add: emit_listening_def listening_once_first_call files_first_call l)
  have ls: "listeners (p\<lparr>files := f\<rparr>)
            = [(Exit, Clean (hotFile pc)), (SIGINT, ExitProcess), (SIGTERM, ExitProcess),
               (SIGHUP, ExitProcess)]" for f
    unfolding p_def p0_def by (simp add: listeners_first_call)
  have e1: "existsSync fs1 (Some (hotFile pc))"
    using ne by (simp add: fs1_def existsSync_def file_at_def)
  have r1: "readFileSync fs1 (hotFile pc) = Inr url"
    using ne by (simp add: fs1_def readFileSync_def file_at_def)
  have c1: "clean (hotFile pc) fs1 = Inr fs2"
    using ne by (simp add: fs1_def fs2_def clean_def existsSync_def file_at_def rmSync_def)
  have e2: "\<not> existsSync fs2 (Some (hotFile pc))"
    by (simp add: fs2_def existsSync_def file_at_def)
  have c2: "clean (hotFile pc) fs2 = Inr fs2"
    using e2 by (simp add: clean_def)
  have x1: "process_exit (p\<lparr>files := fs1\<rparr>) = Inr (p\<lparr>files := fs2\<rparr>)"
    by (simp add: process_exit_four [OF ls] c1)
  have x2: "process_exit (p\<lparr>files := fs2\<rparr>) = Inr (p\<lparr>files := fs2\<rparr>)"
    by (simp add: process_exit_four [OF ls] c2)
  have s: "signal ev (p\<lparr>files := fs1\<rparr>) = Inr (p\<lparr>files := fs2\<rparr>)" if "ev \<noteq> Exit" for ev
    using signal_four [OF ls that] x1 by simp
  have absent: "\<not> existsSync fs (Some (hotFile pc)) \<longrightarrow>
          clean (hotFile pc) fs = Inr fs \<and> process_exit p0 = Inr p0"
  proof
    assume a: "\<not> existsSync fs (Some (hotFile pc))"
    then have c: "clean (hotFile pc) fs = Inr fs"
      by (simp add: clean_def)
    have "listeners p0
            = [(Exit, Clean (hotFile pc)), (SIGINT, ExitProcess), (SIGTERM, ExitProcess),
               (SIGHUP, ExitProcess)]"
      unfolding p0_def by (rule listeners_first_call)
    from process_exit_four [OF this] c have "process_exit p0 = Inr p0"
      unfolding p0_def by (simp add: files_first_call)
    with c show "clean (hotFile pc) fs = Inr fs \<and> process_exit p0 = Inr p0"
      by simp
  qed
  show ?thesis
    unfolding Let_def
    using e e1 r1 e2 c2 x1 x2 s [of SIGINT] s [of SIGTERM] s [of SIGHUP] absent
    unfolding url_def fs1_def fs2_def p_def p0_def
    by simp
qed

text \<open>
  The theorem at the socket address \<open>127.0.0.1:5173\<close>, the user configuration \<open>{}\<close>, the hot
  file \<open>public/hot\<close>, an empty file system and every path open to writing.
\<close>

theorem hot_file_round_trip_witness:
  "emit_listening UNIV (AddressInfo local_address) plain_serve_config
     (same_closure (closure_after_config empty_user_config))
     (configureServer app_plugin_config True (initial_process Map.empty))
   = (((same_closure (closure_after_config empty_user_config))
          (0 := (closure_after_config empty_user_config)
                  \<lparr>viteDevServerUrl := Some ''http://127.0.0.1:5173''\<rparr>),
       (configureServer app_plugin_config True (initial_process Map.empty))
          \<lparr>listening_once := [], files := [''public/hot'' \<mapsto> ''http://127.0.0.1:5173'']\<rparr>),
      None)
   \<and> process_exit
       ((configureServer app_plugin_config True (initial_process Map.empty))
          \<lparr>listening_once := [], files := [''public/hot'' \<mapsto> ''http://127.0.0.1:5173'']\<rparr>)
     = Inr ((configureServer app_plugin_config True (initial_process Map.empty))
              \<lparr>listening_once := [], files := Map.empty\<rparr>)
   \<and> process_exit
       ((configureServer app_plugin_config True (initial_process Map.empty))
          \<lparr>listening_once := [], files := Map.empty\<rparr>)
     = Inr ((configureServer app_plugin_config True (initial_process Map.empty))
              \<lparr>listening_once := [], files := Map.empty\<rparr>)"
proof -
  have h1: "userConfig (same_closure (closure_after_config empty_user_config) 0)
            = Some empty_user_config"
    by (simp add: same_closure_def closure_after_config_def)
  have h2: "can_write UNIV (hotFile app_plugin_config)"
    by (simp add: can_write_def app_plugin_config_def)
  have hot: "hotFile app_plugin_config = ''public/hot''"
    by (simp add: app_plugin_config_def)
  have url: "(case chain (server empty_user_config) origin of
                None \<Rightarrow> resolveDevServerUrl local_address plain_serve_config
              | Some orig \<Rightarrow>
                  if orig = [] then resolveDevServerUrl local_address plain_serve_config else orig)
             = ''http://127.0.0.1:5173''"
    by (simp add: empty_user_config_def chain_def plain_url)
  show ?thesis
    using hot_file_round_trip
            [where closures = "same_closure (closure_after_config empty_user_config)"
               and uc = empty_user_config and writable = UNIV and pc = app_plugin_config
               and a = local_address and cfg = plain_serve_config and fs = Map.empty,
             OF h1 h2]
    unfolding Let_def url hot
    by (simp add: same_closure_def)
qed

text \<open>
  C2 as the specification words it fails at three inputs, each with the socket address
  \<open>127.0.0.1:5173\<close> and an empty file system to start from. Where the user set
  \<open>server.origin\<close> to the empty string, the hot file does not hold the user's origin but the
  resolved URL. Where a write at \<open>public/hot\<close> does not succeed, the handler throws and no hot
  file exists after \<open>listening\<close>. Where a second plugin, with the hot file
  \<open>public/admin-hot\<close>, is configured in the same process after the first, both hot files are
  written, and after \<open>process.exit()\<close> the second plugin's hot file still exists: the one
  \<open>clean\<close> closure that was attached holds the first plugin's hot file.
\<close>

theorem hot_file_round_trip_fails:
  "files (snd (fst (emit_listening UNIV (AddressInfo local_address) plain_serve_config
      (same_closure (closure_after_config
         (empty_user_config\<lparr>server := Some \<lparr>origin = Some [], host = None, hmr = None,
                                              https = None\<rparr>\<rparr>)))
      (configureServer app_plugin_config True (initial_process Map.empty)))))
   = [''public/hot'' \<mapsto> ''http://127.0.0.1:5173'']
   \<and> snd (emit_listening {} (AddressInfo local_address) plain_serve_config
        (same_closure (closure_after_config empty_user_config))
        (configureServer app_plugin_config True (initial_process Map.empty)))
     = Some (ENOENT ''public/hot'')
   \<and> files (snd (fst (emit_listening {} (AddressInfo local_address) plain_serve_config
        (same_closure (closure_after_config empty_user_config))
        (configureServer app_plugin_config True (initial_process Map.empty)))))
     = Map.empty
   \<and> map_sum id files
       (process_exit (snd (fst (emit_listening UNIV (AddressInfo local_address) plain_serve_config
          (same_closure (closure_after_config empty_user_config))
          (configureServer_all
             [(app_plugin_config, True),
              (app_plugin_config\<lparr>hotFile := ''public/admin-hot''\<rparr>, True)]
             (initial_process Map.empty))))))
     = Inr [''public/admin-hot'' \<mapsto> ''http://127.0.0.1:5173'']"
proof -
  let ?st = "closure_after_config empty_user_config"
  let ?p = "configureServer app_plugin_config True (initial_process Map.empty)"
  have empty_origin:
    "files (snd (fst (emit_listening UNIV (AddressInfo local_address) plain_serve_config
      (same_closure (closure_after_config
         (empty_user_config\<lparr>server := Some \<lparr>origin = Some [], host = None, hmr = None,
                                              https = None\<rparr>\<rparr>)))
      ?p)))
     = [''public/hot'' \<mapsto> ''http://127.0.0.1:5173'']"
    by (simp add: emit_listening_def listening_once_first_call files_first_call listening_def
        writeFileSync_def can_write_def same_closure_def closure_after_config_def
        empty_user_config_def chain_def truthy_def app_plugin_config_def plain_url)
  have e: "emit_listening {} (AddressInfo local_address) plain_serve_config (same_closure ?st) ?p
           = (((same_closure ?st)(0 := ?st\<lparr>viteDevServerUrl := Some ''http://127.0.0.1:5173''\<rparr>),
               ?p\<lparr>listening_once := [], files := Map.empty\<rparr>), Some (ENOENT ''public/hot''))"
    by (simp add: emit_listening_def listening_once_first_call files_first_call listening_def
        writeFileSync_def can_write_def same_closure_def closure_after_config_def
        empty_user_config_def chain_def truthy_def app_plugin_config_def plain_url)
  have two: "configureServer_all
               [(app_plugin_config, True),
                (app_plugin_config\<lparr>hotFile := ''public/admin-hot''\<rparr>, True)]
               (initial_process Map.empty)
             = \<lparr>exitHandlersBound = True,
                listeners = [(Exit, Clean ''public/hot''), (SIGINT, ExitProcess),
                             (SIGTERM, ExitProcess), (SIGHUP, ExitProcess)],
                listening_once = [app_plugin_config,
                                  app_plugin_config\<lparr>hotFile := ''public/admin-hot''\<rparr>],
                files = Map.empty\<rparr>"
    by (simp add: configureServer_def initial_process_def Let_def app_plugin_config_def)
  have written:
    "snd (fst (emit_listening UNIV (AddressInfo local_address) plain_serve_config
          (same_closure ?st)
          (configureServer_all
             [(app_plugin_config, True),
              (app_plugin_config\<lparr>hotFile := ''public/admin-hot''\<rparr>, True)]
             (initial_process Map.empty))))
     = \<lparr>exitHandlersBound = True,
        listeners = [(Exit, Clean ''public/hot''), (SIGINT, ExitProcess),
                     (SIGTERM, ExitProcess), (SIGHUP, ExitProcess)],
        listening_once = [],
        files = [''public/hot'' \<mapsto> ''http://127.0.0.1:5173'',
                 ''public/admin-hot'' \<mapsto> ''http://127.0.0.1:5173'']\<rparr>"
    unfolding two
    by (simp add: emit_listening_def listening_def writeFileSync_def can_write_def
        same_closure_def closure_after_config_def empty_user_config_def chain_def truthy_def
        app_plugin_config_def plain_url)
  have m: "[''public/hot'' \<mapsto> ''http://127.0.0.1:5173'',
            ''public/admin-hot'' \<mapsto> ''http://127.0.0.1:5173''](''public/hot'' := None)
           = [''public/admin-hot'' \<mapsto> ''http://127.0.0.1:5173'']"
    by (rule ext) simp
  have survives:
    "map_sum id files
       (process_exit (snd (fst (emit_listening UNIV (AddressInfo local_address) plain_serve_config
          (same_closure ?st)
          (configureServer_all
             [(app_plugin_config, True),
              (app_plugin_config\<lparr>hotFile := ''public/admin-hot''\<rparr>, True)]
             (initial_process Map.empty))))))
     = Inr [''public/admin-hot'' \<mapsto> ''http://127.0.0.1:5173'']"
    unfolding written
    by (simp add: process_exit_def clean_def existsSync_def file_at_def rmSync_def m)
  from empty_origin e survives show ?thesis
    by simp
qed

subsection \<open>An address that is not an \<open>AddressInfo\<close> (C9)\<close>

text \<open>
  With the name of a pipe or \<open>undefined\<close> as address the handler changes nothing and does
  not throw.
\<close>

lemma listening_not_object:
  "listening writable pc (PipeName n) cfg w = (w, None)"
  "listening writable pc AddressUndefined cfg w = (w, None)"
  by (simp_all add: listening_def)

text \<open>
  With \<open>null\<close> as address the guard \<open>typeof x === "object"\<close> holds. Without a user origin the
  handler throws a \<open>TypeError\<close> and changes nothing.
\<close>

lemma listening_null_address_throws:
  "userConfig st = Some uc \<Longrightarrow> \<not> truthy (chain (server uc) origin) \<Longrightarrow>
   listening writable pc AddressNull cfg (st, fs) = ((st, fs), Some TypeError)"
  by (simp add: listening_def)

text \<open>
  C9 at the address \<open>null\<close> with the user's \<open>server.origin = "http://localhost:5173"\<close> and
  every path open to writing: the handler assigns \<open>viteDevServerUrl\<close> and writes the hot
  file, where C9 says that it writes no hot file and assigns no URL.
\<close>

theorem listening_null_address:
  "listening UNIV app_plugin_config AddressNull plain_serve_config
     (\<lparr>viteDevServerUrl = None, resolvedConfig = Some plain_serve_config,
       userConfig = Some \<lparr>base = None, publicDir = None, build = None,
                           server = Some \<lparr>origin = Some ''http://localhost:5173'', host = None,
                                          hmr = None, https = None\<rparr>,
                           resolve = None\<rparr>\<rparr>, Map.empty)
   = ((\<lparr>viteDevServerUrl = Some ''http://localhost:5173'',
        resolvedConfig = Some plain_serve_config,
        userConfig = Some \<lparr>base = None, publicDir = None, build = None,
                            server = Some \<lparr>origin = Some ''http://localhost:5173'', host = None,
                                           hmr = None, https = None\<rparr>,
                            resolve = None\<rparr>\<rparr>,
       [''public/hot'' \<mapsto> ''http://localhost:5173'']), None)"
  by (simp add: listening_def writeFileSync_def can_write_def chain_def truthy_def
      app_plugin_config_def coalesce_def)

section \<open>The exit and signal handlers (C8)\<close>

lemma configureServer_bound:
  "exitHandlersBound (configureServer pc has_http p)"
  by (simp add: configureServer_def Let_def)

lemma configureServer_listeners_bound:
  "exitHandlersBound p \<Longrightarrow> listeners (configureServer pc has_http p) = listeners p"
  by (simp add: configureServer_def Let_def)

lemma configureServer_all_bound:
  "exitHandlersBound p \<Longrightarrow>
   exitHandlersBound (configureServer_all cs p)
   \<and> listeners (configureServer_all cs p) = listeners p"
proof (induction cs arbitrary: p)
  case Nil
  then show ?case by simp
next
  case (Cons c cs)
  have "exitHandlersBound (configureServer (fst c) (snd c) p)"
    by (rule configureServer_bound)
  from Cons.IH [OF this] Cons.prems show ?case
    by (simp add: configureServer_listeners_bound)
qed

text \<open>
  C8. In a process that starts with the flag unset and no listener, after any sequence of
  \<open>configureServer\<close> calls that is not empty the listeners attached with \<open>process.on\<close> are
  the four that the first call attached: \<open>clean\<close> for \<open>exit\<close>, holding the first plugin's hot
  file, and \<open>process.exit()\<close> for each of SIGINT, SIGTERM and SIGHUP. One more call leaves
  the listeners as they are. After any sequence of calls, empty or not, no event has more
  than one listener.
\<close>

theorem exit_handlers_bound_once:
  "listeners (configureServer_all (c # cs) (initial_process fs))
     = [(Exit, Clean (hotFile (fst c))), (SIGINT, ExitProcess), (SIGTERM, ExitProcess),
        (SIGHUP, ExitProcess)]
   \<and> listeners (configureServer_all ((c # cs) @ [d]) (initial_process fs))
     = listeners (configureServer_all (c # cs) (initial_process fs))
   \<and> length (filter (\<lambda>l. fst l = ev) (listeners (configureServer_all ds (initial_process fs))))
     \<le> 1"
proof -
  have first: "listeners (configureServer_all (c # cs) (initial_process fs))
     = [(Exit, Clean (hotFile (fst c))), (SIGINT, ExitProcess), (SIGTERM, ExitProcess),
        (SIGHUP, ExitProcess)]" for c cs
    using configureServer_all_bound [OF configureServer_bound, of cs "fst c" "snd c" "initial_process fs"]
    by (simp add: listeners_first_call)
  have later: "listeners (configureServer_all ((c # cs) @ [d]) (initial_process fs))
     = listeners (configureServer_all (c # cs) (initial_process fs))"
    using first [of c "cs @ [d]"] first [of c cs] by simp
  have once: "length (filter (\<lambda>l. fst l = ev) (listeners (configureServer_all ds (initial_process fs))))
     \<le> 1"
  proof (cases ds)
    case Nil
    then show ?thesis by (simp add: initial_process_def)
  next
    case (Cons x xs)
    then show ?thesis
      using first [of x xs] by (cases ev) simp_all
  qed
  from first later once show ?thesis
    by blast
qed

section \<open>The \<open>transform\<close> hook (C6)\<close>

lemma getSubstitution_no_dollar:
  "CHR ''$'' \<notin> set r \<Longrightarrow> getSubstitution m b a r = r"
  by (induction m b a r rule: getSubstitution.induct) auto

lemma replace_global_no_dollar:
  "CHR ''$'' \<notin> set r \<Longrightarrow> replace_global pat r before s = replace_every pat r s"
proof (induction pat r before s rule: replace_global.induct)
  case (1 pat replacement before s)
  show ?case
  proof (cases "s = [] \<or> pat = []")
    case True
    then show ?thesis
      by (simp add: replace_global.simps [of pat replacement before s]
          replace_every.simps [of pat replacement s])
  next
    case False
    show ?thesis
    proof (cases "starts_with pat s")
      case True
      with False 1 show ?thesis
        by (simp add: replace_global.simps [of pat replacement before s]
            replace_every.simps [of pat replacement s] getSubstitution_no_dollar)
    next
      case no: False
      with False 1 show ?thesis
        by (simp add: replace_global.simps [of pat replacement before s]
            replace_every.simps [of pat replacement s])
    qed
  qed
qed

text \<open>
  In serve mode, with a URL that holds no dollar sign, the hook replaces every occurrence
  of the placeholder with the URL and hands the text and the URL to \<open>transformOnServe\<close>;
  when the command is not \<open>serve\<close> it returns nothing.
\<close>

lemma transform_serve:
  assumes "resolvedConfig st = Some rc" and "config_command rc = Serve"
    and "viteDevServerUrl st = Some url" and "CHR ''$'' \<notin> set url"
  shows "transform pc st code
         = Inr (Some (transformOnServe pc (replace_every placeholder url code) (Some url)))"
  using assms
  by (simp add: transform_def url_to_string_def coalesce_def replace_global_no_dollar)

lemma transform_not_serve:
  assumes "resolvedConfig st = Some rc" and "config_command rc \<noteq> Serve"
  shows "transform pc st code = Inr None"
  using assms by (simp add: transform_def)

text \<open>The URL that \<open>resolveDevServerUrl\<close> gives for the HMR host \<open>$&\<close>.\<close>

lemma dollar_host_url:
  "resolveDevServerUrl
     \<lparr>address = ''127.0.0.1'', family = FamilyName ''IPv4'', port = 5173\<rparr>
     \<lparr>config_command = Serve,
      config_server =
        \<lparr>server_hmr = Some (HmrOptions \<lparr>hmr_protocol = None, hmr_host = Some ''$&'',
                                         hmr_clientPort = None\<rparr>),
         server_https = None, server_host = None\<rparr>\<rparr>
   = ''http://$&:5173''"
  by (simp add: resolveDevServerUrl_def coalesce_def truthy_def Let_def hmr_field_def
      isIpv6_def number_to_string_5173)

text \<open>
  C6 at the URL \<open>http://$&:5173\<close>: \<open>replace\<close> reads \<open>$&\<close> in its replacement string as the
  matched text, so the placeholder is replaced by a text that is not the URL, where C6
  says that every occurrence is replaced with the URL.
\<close>

theorem transform_dollar_pattern:
  "transform app_plugin_config
     \<lparr>viteDevServerUrl = Some ''http://$&:5173'', resolvedConfig = Some plain_serve_config,
      userConfig = None\<rparr>
     ''url(__backend_vite_placeholder__/logo.svg)''
   = Inr (Some ''url(http://__backend_vite_placeholder__:5173/logo.svg)'')"
  by code_simp

end
